theory Spec2Isabelle
  imports Main "HOL-Library.Word"
begin

unbundle bit_operations_syntax

section \<open>Layout constants of \<open>journal.c\<close>\<close>

text \<open>
  The image is one flat file of 4096-byte blocks: block 0 is the superblock, blocks 1..16
  are the journal, block 17 the inode bitmap, block 18 the data bitmap, blocks 19..20 the
  inode table and blocks 21..84 the data region. Block indices are \<open>uint32_t\<close> in the
  source and \<open>32 word\<close> here; sizes and byte addresses are natural numbers.
\<close>

type_synonym byte = "8 word"

text \<open>
  A buffer is a window of bytes indexed from its start; the image is the file's bytes
  indexed from offset 0. Both are total functions: the source's arrays end (4096 bytes for
  a block, 65536 for the journal buffer) and an access past the end is undefined in C, so
  statements below are about accesses inside these bounds. Structures are laid out as on
  a little-endian machine with the natural alignment of their fields, which for every
  structure of this program means no implicit padding.
\<close>

type_synonym buf = "nat \<Rightarrow> byte"
type_synonym disk = "nat \<Rightarrow> byte"

definition FS_MAGIC :: "32 word" where "FS_MAGIC = 0x56534653"
definition JOURNAL_MAGIC :: "32 word" where "JOURNAL_MAGIC = 0x4A524E4C"

definition BLOCK_SIZE :: nat where "BLOCK_SIZE = 4096"
definition INODE_SIZE :: nat where "INODE_SIZE = 128"
definition JOURNAL_BLOCK_IDX :: "32 word" where "JOURNAL_BLOCK_IDX = 1"
definition JOURNAL_BLOCKS :: nat where "JOURNAL_BLOCKS = 16"
definition INODE_BLOCKS :: nat where "INODE_BLOCKS = 2"
definition DATA_BLOCKS :: nat where "DATA_BLOCKS = 64"
definition INODE_BMAP_IDX :: "32 word" where "INODE_BMAP_IDX = JOURNAL_BLOCK_IDX + 16"
definition DATA_BMAP_IDX :: "32 word" where "DATA_BMAP_IDX = INODE_BMAP_IDX + 1"
definition INODE_START_IDX :: "32 word" where "INODE_START_IDX = DATA_BMAP_IDX + 1"
definition DATA_START_IDX :: "32 word" where "DATA_START_IDX = INODE_START_IDX + 2"
definition TOTAL_BLOCKS :: "32 word" where "TOTAL_BLOCKS = DATA_START_IDX + 64"
definition DIRECT_POINTERS :: nat where "DIRECT_POINTERS = 8"
definition NAME_LEN :: nat where "NAME_LEN = 28"
definition JOURNAL_SIZE :: nat where "JOURNAL_SIZE = JOURNAL_BLOCKS * BLOCK_SIZE"

definition REC_DATA :: "16 word" where "REC_DATA = 1"
definition REC_COMMIT :: "16 word" where "REC_COMMIT = 2"

definition INODE_FREE :: "16 word" where "INODE_FREE = 0"
definition INODE_FILE :: "16 word" where "INODE_FILE = 1"
definition INODE_DIR :: "16 word" where "INODE_DIR = 2"

text \<open>The \<open>sizeof\<close> of the on-disk structures.\<close>

definition sizeof_superblock :: nat where "sizeof_superblock = 128"
definition sizeof_journal_header :: nat where "sizeof_journal_header = 8"
definition sizeof_rec_header :: nat where "sizeof_rec_header = 4"
definition sizeof_dirent :: nat where "sizeof_dirent = 4 + NAME_LEN"
definition sizeof_data_record :: nat where
  "sizeof_data_record = sizeof_rec_header + 4 + BLOCK_SIZE"

lemmas layout_defs =
  FS_MAGIC_def JOURNAL_MAGIC_def BLOCK_SIZE_def INODE_SIZE_def JOURNAL_BLOCK_IDX_def
  JOURNAL_BLOCKS_def INODE_BLOCKS_def DATA_BLOCKS_def INODE_BMAP_IDX_def DATA_BMAP_IDX_def
  INODE_START_IDX_def DATA_START_IDX_def TOTAL_BLOCKS_def DIRECT_POINTERS_def NAME_LEN_def
  JOURNAL_SIZE_def REC_DATA_def REC_COMMIT_def INODE_FREE_def INODE_FILE_def INODE_DIR_def
  sizeof_superblock_def sizeof_journal_header_def sizeof_rec_header_def sizeof_dirent_def
  sizeof_data_record_def

section \<open>Fixed-width fields in a byte buffer\<close>

definition load16 :: "buf \<Rightarrow> nat \<Rightarrow> 16 word" where
  "load16 m a = ucast (m a) OR push_bit 8 (ucast (m (a + 1)))"

definition load32 :: "buf \<Rightarrow> nat \<Rightarrow> 32 word" where
  "load32 m a = ucast (m a) OR push_bit 8 (ucast (m (a + 1)))
     OR push_bit 16 (ucast (m (a + 2))) OR push_bit 24 (ucast (m (a + 3)))"

definition store16 :: "buf \<Rightarrow> nat \<Rightarrow> 16 word \<Rightarrow> buf" where
  "store16 m a v =
     (\<lambda>i. if i = a then ucast v
          else if i = a + 1 then ucast (drop_bit 8 v)
          else m i)"

definition store32 :: "buf \<Rightarrow> nat \<Rightarrow> 32 word \<Rightarrow> buf" where
  "store32 m a v =
     (\<lambda>i. if i = a then ucast v
          else if i = a + 1 then ucast (drop_bit 8 v)
          else if i = a + 2 then ucast (drop_bit 16 v)
          else if i = a + 3 then ucast (drop_bit 24 v)
          else m i)"

text \<open>\<open>memcpy (dst + off, src, n)\<close> and \<open>memset (dst + off, 0, n)\<close>.\<close>

definition memcpy :: "buf \<Rightarrow> nat \<Rightarrow> buf \<Rightarrow> nat \<Rightarrow> buf" where
  "memcpy dst off src n = (\<lambda>i. if off \<le> i \<and> i < off + n then src (i - off) else dst i)"

definition memset0 :: "buf \<Rightarrow> nat \<Rightarrow> nat \<Rightarrow> buf" where
  "memset0 dst off n = (\<lambda>i. if off \<le> i \<and> i < off + n then 0 else dst i)"

section \<open>C strings\<close>

text \<open>
  A file name is the list of the bytes of the argument; as in C, it ends at the first
  NUL byte (or at the end of the list, where the terminator stands).
\<close>

definition strlen :: "byte list \<Rightarrow> nat" where
  "strlen s = length (takeWhile (\<lambda>c. c \<noteq> 0) s)"

text \<open>\<open>strcmp (m + p, s) == 0\<close>: the bytes at \<open>p\<close> spell \<open>s\<close> and its terminator.\<close>

fun strcmp_eq :: "buf \<Rightarrow> nat \<Rightarrow> byte list \<Rightarrow> bool" where
  "strcmp_eq m p [] = (m p = 0)"
| "strcmp_eq m p (c # cs) = (if c = 0 then m p = 0 else m p = c \<and> strcmp_eq m (p + 1) cs)"

text \<open>\<open>strncpy (m + p, s, n)\<close>: the characters of \<open>s\<close>, then NUL bytes up to \<open>n\<close> bytes.\<close>

definition strncpy :: "buf \<Rightarrow> nat \<Rightarrow> byte list \<Rightarrow> nat \<Rightarrow> buf" where
  "strncpy m p s n =
     (\<lambda>i. if p \<le> i \<and> i < p + n then (if i - p < strlen s then s ! (i - p) else 0) else m i)"

section \<open>Block store\<close>

text \<open>
  \<open>read_block\<close> and \<open>write_block\<close> seek to \<open>block_index * BLOCK_SIZE\<close>, a 64-bit
  offset, and transfer one block. The source does not look at the results of \<open>lseek\<close>,
  \<open>read\<close> and \<open>write\<close>: here every transfer is complete, the image being as long as
  the blocks addressed need. The image is the state that the commands pass along; a
  failing \<open>open\<close> or \<open>malloc\<close> ends the program before it has read anything and
  has no counterpart below.
\<close>

definition read_block :: "disk \<Rightarrow> 32 word \<Rightarrow> buf" where
  "read_block d block_index = (\<lambda>i. d (unat block_index * BLOCK_SIZE + i))"

definition write_block :: "disk \<Rightarrow> 32 word \<Rightarrow> buf \<Rightarrow> disk" where
  "write_block d block_index b =
     (\<lambda>a. if unat block_index * BLOCK_SIZE \<le> a \<and> a < unat block_index * BLOCK_SIZE + BLOCK_SIZE
          then b (a - unat block_index * BLOCK_SIZE) else d a)"

section \<open>Bitmap allocator\<close>

definition bitmap_test :: "buf \<Rightarrow> nat \<Rightarrow> bool" where
  "bitmap_test bitmap index = bit (bitmap (index div 8)) (index mod 8)"

definition bitmap_set :: "buf \<Rightarrow> nat \<Rightarrow> buf" where
  "bitmap_set bitmap index =
     bitmap (index div 8 := bitmap (index div 8) OR push_bit (index mod 8) 1)"

text \<open>The \<open>for\<close> loop of \<open>bitmap_find_free\<close>, from \<open>i\<close> on; \<open>-1\<close> when no bit is free.\<close>

function bitmap_find_free_from :: "buf \<Rightarrow> nat \<Rightarrow> nat \<Rightarrow> 32 word" where
  "bitmap_find_free_from bitmap max_bits i =
     (if i < max_bits then
        (if \<not> bitmap_test bitmap i then word_of_nat i
         else bitmap_find_free_from bitmap max_bits (i + 1))
      else - 1)"
  by pat_completeness auto
termination
  by (relation "measure (\<lambda>(bitmap, max_bits, i). max_bits - i)") auto

declare bitmap_find_free_from.simps [simp del]

definition bitmap_find_free :: "buf \<Rightarrow> 32 word \<Rightarrow> 32 word" where
  "bitmap_find_free bitmap max_bits = bitmap_find_free_from bitmap (unat max_bits) 0"

section \<open>Structure fields\<close>

text \<open>Superblock: \<open>magic\<close> at 0, \<open>inode_count\<close> at 12.\<close>

definition sb_magic :: "buf \<Rightarrow> 32 word" where "sb_magic sb = load32 sb 0"
definition sb_inode_count :: "buf \<Rightarrow> 32 word" where "sb_inode_count sb = load32 sb 12"

text \<open>
  Inode at byte \<open>p\<close> of a block: \<open>type\<close> at 0, \<open>links\<close> at 2, \<open>size\<close> at 4,
  \<open>direct[k]\<close> at \<open>8 + 4 * k\<close>, \<open>ctime\<close> at 40, \<open>mtime\<close> at 44.
\<close>

definition inode_type :: "buf \<Rightarrow> nat \<Rightarrow> 16 word" where "inode_type b p = load16 b p"
definition inode_links :: "buf \<Rightarrow> nat \<Rightarrow> 16 word" where "inode_links b p = load16 b (p + 2)"
definition inode_size :: "buf \<Rightarrow> nat \<Rightarrow> 32 word" where "inode_size b p = load32 b (p + 4)"
definition inode_direct :: "buf \<Rightarrow> nat \<Rightarrow> nat \<Rightarrow> 32 word" where
  "inode_direct b p k = load32 b (p + 8 + 4 * k)"
definition inode_ctime :: "buf \<Rightarrow> nat \<Rightarrow> 32 word" where "inode_ctime b p = load32 b (p + 40)"
definition inode_mtime :: "buf \<Rightarrow> nat \<Rightarrow> 32 word" where "inode_mtime b p = load32 b (p + 44)"

text \<open>Directory entry \<open>i\<close> of a block: \<open>inode\<close> at \<open>32 * i\<close>, \<open>name\<close> at \<open>32 * i + 4\<close>.\<close>

definition dirent_inode :: "buf \<Rightarrow> nat \<Rightarrow> 32 word" where
  "dirent_inode b i = load32 b (i * sizeof_dirent)"
definition dirent_name :: "nat \<Rightarrow> nat" where
  "dirent_name i = i * sizeof_dirent + 4"

text \<open>Journal header: \<open>magic\<close> at 0, \<open>nbytes_used\<close> at 4.\<close>

definition jh_magic :: "buf \<Rightarrow> 32 word" where "jh_magic j = load32 j 0"
definition jh_nbytes_used :: "buf \<Rightarrow> 32 word" where "jh_nbytes_used j = load32 j 4"

text \<open>
  Record at byte \<open>p\<close> of the journal buffer: \<open>hdr.type\<close> at 0, \<open>hdr.size\<close> at 2, and for
  a data record \<open>block_no\<close> at 4 and the 4096 bytes of \<open>data\<close> from 8.
\<close>

definition rec_type :: "buf \<Rightarrow> nat \<Rightarrow> 16 word" where "rec_type j p = load16 j p"
definition rec_size :: "buf \<Rightarrow> nat \<Rightarrow> 16 word" where "rec_size j p = load16 j (p + 2)"
definition rec_block_no :: "buf \<Rightarrow> nat \<Rightarrow> 32 word" where "rec_block_no j p = load32 j (p + 4)"
definition rec_data :: "buf \<Rightarrow> nat \<Rightarrow> buf" where "rec_data j p = (\<lambda>i. j (p + 8 + i))"

section \<open>Journal manager\<close>

text \<open>The loops of \<open>read_journal\<close> and \<open>write_journal\<close> over the first \<open>n\<close> journal blocks.\<close>

primrec read_journal_blocks :: "disk \<Rightarrow> nat \<Rightarrow> buf \<Rightarrow> buf" where
  "read_journal_blocks d 0 journal_buf = journal_buf"
| "read_journal_blocks d (Suc i) journal_buf =
     memcpy (read_journal_blocks d i journal_buf) (i * BLOCK_SIZE)
       (read_block d (JOURNAL_BLOCK_IDX + word_of_nat i)) BLOCK_SIZE"

definition read_journal :: "disk \<Rightarrow> buf" where
  "read_journal d = read_journal_blocks d JOURNAL_BLOCKS (\<lambda>i. 0)"

primrec write_journal_blocks :: "disk \<Rightarrow> nat \<Rightarrow> buf \<Rightarrow> disk" where
  "write_journal_blocks d 0 journal_buf = d"
| "write_journal_blocks d (Suc i) journal_buf =
     write_block (write_journal_blocks d i journal_buf) (JOURNAL_BLOCK_IDX + word_of_nat i)
       (\<lambda>k. journal_buf (i * BLOCK_SIZE + k))"

definition write_journal :: "disk \<Rightarrow> buf \<Rightarrow> disk" where
  "write_journal d journal_buf = write_journal_blocks d JOURNAL_BLOCKS journal_buf"

definition init_journal :: "buf \<Rightarrow> buf" where
  "init_journal journal_buf =
     store32 (store32 (memset0 journal_buf 0 JOURNAL_SIZE) 0 JOURNAL_MAGIC) 4
       (word_of_nat sizeof_journal_header)"

definition journal_is_initialized :: "buf \<Rightarrow> bool" where
  "journal_is_initialized journal_buf = (jh_magic journal_buf = JOURNAL_MAGIC)"

text \<open>
  The two append helpers return the buffer and the advanced offset; the offset is a
  \<open>uint32_t\<close> and wraps.
\<close>

definition append_data_record :: "buf \<Rightarrow> 32 word \<Rightarrow> 32 word \<Rightarrow> buf \<Rightarrow> buf \<times> 32 word" where
  "append_data_record journal_buf offset block_no block_data =
     (let p = unat offset;
          j1 = store16 journal_buf p REC_DATA;
          j2 = store16 j1 (p + 2) (word_of_nat sizeof_data_record);
          j3 = store32 j2 (p + 4) block_no;
          j4 = memcpy j3 (p + 8) block_data BLOCK_SIZE
      in (j4, offset + ucast (rec_size j4 p)))"

definition append_commit_record :: "buf \<Rightarrow> 32 word \<Rightarrow> buf \<times> 32 word" where
  "append_commit_record journal_buf offset =
     (let p = unat offset;
          j1 = store16 journal_buf p REC_COMMIT;
          j2 = store16 j1 (p + 2) (word_of_nat sizeof_rec_header)
      in (j2, offset + ucast (rec_size j2 p)))"

definition update_journal_header :: "buf \<Rightarrow> 32 word \<Rightarrow> buf" where
  "update_journal_header journal_buf nbytes_used = store32 journal_buf 4 nbytes_used"

section \<open>Transaction builder: \<open>cmd_create\<close>\<close>

datatype error =
    NameTooLong
  | InvalidImage
  | NoFreeInode
  | DuplicateName
  | NoFreeDirectorySlot
  | JournalFull
  | JournalNotInitialized
  | Killed

text \<open>
  The loop over the root directory's entries, from entry \<open>i\<close> on: it stops at the first
  unused slot (inode 0 and empty name) and returns its index, exits with the
  already-exists error at an entry whose name equals \<open>filename\<close>, and returns \<open>-1\<close>
  when it runs off the block.
\<close>

definition max_entries :: nat where
  "max_entries = BLOCK_SIZE div sizeof_dirent"

definition dirent_unused :: "buf \<Rightarrow> nat \<Rightarrow> bool" where
  "dirent_unused entries i = (dirent_inode entries i = 0 \<and> entries (dirent_name i) = 0)"

function scan_root_dir :: "buf \<Rightarrow> byte list \<Rightarrow> nat \<Rightarrow> error + 32 word" where
  "scan_root_dir entries filename i =
     (if i < max_entries then
        (if dirent_unused entries i then Inr (word_of_nat i)
         else if strcmp_eq entries (dirent_name i) filename then Inl DuplicateName
         else scan_root_dir entries filename (i + 1))
      else Inr (- 1))"
  by pat_completeness auto
termination
  by (relation "measure (\<lambda>(entries, filename, i). max_entries - i)") auto

declare scan_root_dir.simps [simp del]

text \<open>
  The metadata that \<open>cmd_create\<close> reads from the image: the inode count of the
  superblock, the inode bitmap, the block of the root inode (the first inode of the
  table), the root directory's block number \<open>root_inode->direct[0]\<close> and that block.
\<close>

definition inode_count :: "disk \<Rightarrow> nat" where
  "inode_count d = unat (sb_inode_count (read_block d 0))"

definition inode_bitmap :: "disk \<Rightarrow> buf" where
  "inode_bitmap d = read_block d INODE_BMAP_IDX"

definition inode_block :: "disk \<Rightarrow> buf" where
  "inode_block d = read_block d INODE_START_IDX"

definition root_data_blk :: "disk \<Rightarrow> 32 word" where
  "root_data_blk d = inode_direct (inode_block d) 0 0"

definition root_directory :: "disk \<Rightarrow> buf" where
  "root_directory d = read_block d (root_data_blk d)"

text \<open>
  The superblock. \<open>cmd_create\<close> declares \<open>struct superblock sb\<close>, an object of 128
  bytes, and calls \<open>read_block (fd, 0, &sb)\<close>, which stores \<open>BLOCK_SIZE\<close> bytes at
  \<open>&sb\<close>: the first 128 fill the structure and the other 3968 are written past it, on
  the stack of \<open>cmd_create\<close>. C gives this write no meaning, and what it does depends on
  how the program was built. A run takes it as a parameter: with \<open>Fatal\<close> the process is
  killed there, before it has written anything to the image; with \<open>Harmless\<close> the bytes
  land where nothing live is stored and the run goes on, \<open>sb\<close> holding the fields of
  block 0.
\<close>

datatype overrun = Harmless | Fatal

definition read_superblock :: "overrun \<Rightarrow> disk \<Rightarrow> error + buf" where
  "read_superblock w d =
     (if sizeof_superblock < BLOCK_SIZE \<and> w = Fatal then Inl Killed
      else Inr (read_block d 0))"

text \<open>
  The checks of \<open>cmd_create\<close>, in the order of the source: the length of the name, the
  read of the superblock and its magic, a free inode, then the scan of the root
  directory. The result is the error of the first failing check, or the inode and the
  directory slot chosen. (The source reads the journal between the check of the magic
  and the search for a free inode; nothing read there is used before the transaction is
  staged.)
\<close>

definition create_lookup ::
  "overrun \<Rightarrow> byte list \<Rightarrow> disk \<Rightarrow> error + (32 word \<times> 32 word)" where
  "create_lookup w filename d =
     (if NAME_LEN \<le> strlen filename then Inl NameTooLong
      else
        (case read_superblock w d of
           Inl e \<Rightarrow> Inl e
         | Inr sb \<Rightarrow>
             if sb_magic sb \<noteq> FS_MAGIC then Inl InvalidImage
             else
               let free_inode = bitmap_find_free (inode_bitmap d) (sb_inode_count sb)
               in
                 if free_inode = - 1 then Inl NoFreeInode
                 else
                   (case scan_root_dir (root_directory d) filename 0 of
                      Inl e \<Rightarrow> Inl e
                    | Inr free_entry \<Rightarrow>
                        if free_entry = - 1 then Inl NoFreeDirectorySlot
                        else Inr (free_inode, free_entry))))"

text \<open>The new file's inode, written at byte \<open>p\<close> of the copy of its inode-table block.\<close>

definition init_file_inode :: "buf \<Rightarrow> nat \<Rightarrow> 32 word \<Rightarrow> buf" where
  "init_file_inode b p now =
     (let b1 = store16 b p INODE_FILE;
          b2 = store16 b1 (p + 2) 1;
          b3 = store32 b2 (p + 4) 0;
          b4 = memset0 b3 (p + 8) (DIRECT_POINTERS * 4);
          b5 = store32 b4 (p + 40) now
      in store32 b5 (p + 44) now)"

text \<open>The new directory entry: the inode number, the name by \<open>strncpy\<close>, a final NUL.\<close>

definition set_dirent :: "buf \<Rightarrow> nat \<Rightarrow> 32 word \<Rightarrow> byte list \<Rightarrow> buf" where
  "set_dirent b i ino filename =
     (let b1 = store32 b (i * sizeof_dirent) ino;
          b2 = strncpy b1 (dirent_name i) filename (NAME_LEN - 1)
      in b2 (dirent_name i + (NAME_LEN - 1) := 0))"

text \<open>The root inode is the first inode of the block: its size grows by one entry.\<close>

definition touch_root_inode :: "buf \<Rightarrow> 32 word \<Rightarrow> buf" where
  "touch_root_inode b now =
     (let b1 = store32 b 4 (inode_size b 0 + word_of_nat sizeof_dirent)
      in store32 b1 44 now)"

text \<open>
  Where inode \<open>free_inode\<close> lives: its block of the inode table and its byte offset in
  that block.
\<close>

definition inode_block_idx :: "32 word \<Rightarrow> nat" where
  "inode_block_idx free_inode = unat free_inode div (BLOCK_SIZE div INODE_SIZE)"

definition inode_offset :: "32 word \<Rightarrow> nat" where
  "inode_offset free_inode = unat free_inode mod (BLOCK_SIZE div INODE_SIZE)"

text \<open>
  The three copies that a create journals. The copy of the inode-table block starts as a
  copy of the root inode's block and is read again from the image when the new inode is
  in another block; the root inode is updated only when it is in the copy.
\<close>

definition new_inode_bitmap :: "disk \<Rightarrow> 32 word \<Rightarrow> buf" where
  "new_inode_bitmap d free_inode = bitmap_set (inode_bitmap d) (unat free_inode)"

definition new_inode_block :: "disk \<Rightarrow> 32 word \<Rightarrow> 32 word \<Rightarrow> buf" where
  "new_inode_block d free_inode now =
     (let b0 = (if inode_block_idx free_inode \<noteq> 0
                then read_block d (INODE_START_IDX + word_of_nat (inode_block_idx free_inode))
                else inode_block d);
          b1 = init_file_inode b0 (inode_offset free_inode * INODE_SIZE) now
      in if inode_block_idx free_inode = 0 then touch_root_inode b1 now else b1)"

definition new_root_data_block :: "disk \<Rightarrow> 32 word \<Rightarrow> 32 word \<Rightarrow> byte list \<Rightarrow> buf" where
  "new_root_data_block d free_inode free_entry filename =
     set_dirent (root_directory d) (unat free_entry) free_inode filename"

definition total_needed :: "32 word" where
  "total_needed = word_of_nat (3 * sizeof_data_record + sizeof_rec_header)"

text \<open>
  The journal as \<open>cmd_create\<close> holds it after reading it: initialised first when its
  magic is absent.
\<close>

definition open_journal :: "disk \<Rightarrow> buf" where
  "open_journal d =
     (let journal_buf = read_journal d
      in if journal_is_initialized journal_buf then journal_buf else init_journal journal_buf)"

text \<open>
  The second half of \<open>cmd_create\<close>: the capacity check, the three data records and the
  commit record, the header, and the write of the whole journal. \<open>now\<close> is the value of
  \<open>time (NULL)\<close> as a \<open>uint32_t\<close>.
\<close>

definition stage_create ::
  "byte list \<Rightarrow> 32 word \<Rightarrow> disk \<Rightarrow> 32 word \<Rightarrow> 32 word \<Rightarrow> (error + unit) \<times> disk" where
  "stage_create filename now d free_inode free_entry =
     (let journal_buf = open_journal d;
          current_offset = jh_nbytes_used journal_buf
      in
        if current_offset + total_needed > word_of_nat JOURNAL_SIZE then (Inl JournalFull, d)
        else
          let (j1, o1) = append_data_record journal_buf current_offset INODE_BMAP_IDX
                           (new_inode_bitmap d free_inode);
              (j2, o2) = append_data_record j1 o1
                           (INODE_START_IDX + word_of_nat (inode_block_idx free_inode))
                           (new_inode_block d free_inode now);
              (j3, o3) = append_data_record j2 o2 (root_data_blk d)
                           (new_root_data_block d free_inode free_entry filename);
              (j4, o4) = append_commit_record j3 o3
          in (Inr (), write_journal d (update_journal_header j4 o4)))"

definition cmd_create ::
  "overrun \<Rightarrow> byte list \<Rightarrow> 32 word \<Rightarrow> disk \<Rightarrow> (error + unit) \<times> disk" where
  "cmd_create w filename now d =
     (case create_lookup w filename d of
        Inl e \<Rightarrow> (Inl e, d)
      | Inr (free_inode, free_entry) \<Rightarrow> stage_create filename now d free_inode free_entry)"

section \<open>Install: \<open>cmd_install\<close>\<close>

text \<open>
  The first loop counts the commit records, the second applies the data records. A record
  whose \<open>size\<close> field is 0 keeps either loop at the same offset for ever, so both are
  partial: \<open>None\<close> is the run that does not return. The sum
  \<open>offset + sizeof (struct rec_header)\<close> is computed in \<open>size_t\<close> (64 bits) and does not
  wrap; \<open>offset += hdr->size\<close> is 32-bit and does.
\<close>

partial_function (option) count_commits :: "buf \<Rightarrow> 32 word \<Rightarrow> 32 word \<Rightarrow> int \<Rightarrow> int option" where
  "count_commits journal_buf nbytes_used offset transactions_replayed =
     (if offset < nbytes_used then
        (if unat offset + sizeof_rec_header > unat nbytes_used then Some transactions_replayed
         else if rec_type journal_buf (unat offset) = REC_DATA then
           count_commits journal_buf nbytes_used
             (offset + ucast (rec_size journal_buf (unat offset))) transactions_replayed
         else if rec_type journal_buf (unat offset) = REC_COMMIT then
           count_commits journal_buf nbytes_used
             (offset + ucast (rec_size journal_buf (unat offset))) (transactions_replayed + 1)
         else Some transactions_replayed)
      else Some transactions_replayed)"

partial_function (option) replay_records :: "buf \<Rightarrow> 32 word \<Rightarrow> 32 word \<Rightarrow> disk \<Rightarrow> disk option" where
  "replay_records journal_buf nbytes_used offset d =
     (if offset < nbytes_used then
        (if unat offset + sizeof_rec_header > unat nbytes_used then Some d
         else if rec_type journal_buf (unat offset) = REC_DATA then
           replay_records journal_buf nbytes_used
             (offset + ucast (rec_size journal_buf (unat offset)))
             (write_block d (rec_block_no journal_buf (unat offset))
                (rec_data journal_buf (unat offset)))
         else if rec_type journal_buf (unat offset) = REC_COMMIT then
           replay_records journal_buf nbytes_used
             (offset + ucast (rec_size journal_buf (unat offset))) d
         else Some d)
      else Some d)"

definition cmd_install :: "disk \<Rightarrow> ((error + int) \<times> disk) option" where
  "cmd_install d =
     (let journal_buf = read_journal d in
      if \<not> journal_is_initialized journal_buf then Some (Inl JournalNotInitialized, d)
      else
        let nbytes_used = jh_nbytes_used journal_buf in
        (case count_commits journal_buf nbytes_used (word_of_nat sizeof_journal_header) 0 of
           None \<Rightarrow> None
         | Some transactions_replayed \<Rightarrow>
             (case replay_records journal_buf nbytes_used (word_of_nat sizeof_journal_header) d of
                None \<Rightarrow> None
              | Some d' \<Rightarrow>
                  Some (Inr transactions_replayed,
                        write_journal d' (init_journal journal_buf)))))"

section \<open>The data records a replay visits\<close>

text \<open>
  The offsets of the data records that the loops of \<open>cmd_install\<close> reach, in the order in
  which they reach them: the same walk as \<open>replay_records\<close>, collecting instead of
  writing. It is used to say which record was the last to target a block.
\<close>

partial_function (option) data_records :: "buf \<Rightarrow> 32 word \<Rightarrow> 32 word \<Rightarrow> 32 word list option" where
  "data_records journal_buf nbytes_used offset =
     (if offset < nbytes_used then
        (if unat offset + sizeof_rec_header > unat nbytes_used then Some []
         else if rec_type journal_buf (unat offset) = REC_DATA then
           Option.bind
             (data_records journal_buf nbytes_used
               (offset + ucast (rec_size journal_buf (unat offset))))
             (\<lambda>offsets. Some (offset # offsets))
         else if rec_type journal_buf (unat offset) = REC_COMMIT then
           data_records journal_buf nbytes_used
             (offset + ucast (rec_size journal_buf (unat offset)))
         else Some [])
      else Some [])"

definition apply_record :: "buf \<Rightarrow> disk \<Rightarrow> 32 word \<Rightarrow> disk" where
  "apply_record journal_buf d offset =
     write_block d (rec_block_no journal_buf (unat offset)) (rec_data journal_buf (unat offset))"

text \<open>Of the records at \<open>offsets\<close>, those whose target is block \<open>b\<close>.\<close>

definition records_for :: "buf \<Rightarrow> 32 word \<Rightarrow> 32 word list \<Rightarrow> 32 word list" where
  "records_for journal_buf b offsets =
     filter (\<lambda>offset. rec_block_no journal_buf (unat offset) = b) offsets"

text \<open>Blocks 1..16 hold the journal.\<close>

definition in_journal_region :: "32 word \<Rightarrow> bool" where
  "in_journal_region b =
     (unat JOURNAL_BLOCK_IDX \<le> unat b \<and> unat b < unat JOURNAL_BLOCK_IDX + JOURNAL_BLOCKS)"

section \<open>Images used as concrete inputs\<close>

definition c_string :: "string \<Rightarrow> byte list" where
  "c_string s = map (\<lambda>c. word_of_nat (of_char c)) s"

definition poke32 :: "(nat \<times> 32 word) list \<Rightarrow> disk \<Rightarrow> disk" where
  "poke32 ws d = foldr (\<lambda>(a, v) m. store32 m a v) ws d"

text \<open>
  Modelled from the spec: the formatter is not part of this repository. The spec asks of
  it a valid superblock, bitmaps zeroed except for the reserved entries and an empty root
  directory at its data block. Here: the superblock of the layout above with 64 inodes,
  inode 0 (the root directory) and data block 21 marked in their bitmaps, the root inode
  a directory of two links whose first direct pointer is block 21, and in block 21 the
  entries \<open>.\<close> and \<open>..\<close>, both of inode 0. The journal region is all zero.
\<close>

definition fresh_image :: disk where
  "fresh_image =
     poke32
       [(0, FS_MAGIC), (4, 4096), (8, 85), (12, 64),
        (16, 1), (20, 17), (24, 18), (28, 19), (32, 21),
        (17 * 4096, 1), (18 * 4096, 1),
        (19 * 4096, 0x00020002), (19 * 4096 + 4, 64), (19 * 4096 + 8, 21),
        (21 * 4096 + 4, 0x2E), (21 * 4096 + 36, 0x2E2E)]
       (\<lambda>a. 0)"

text \<open>The fresh image with inodes 0..31 in use: the next free inode is the first of block 20.\<close>

definition first_block_full_image :: disk where
  "first_block_full_image = poke32 [(17 * 4096, 0xFFFFFFFF)] fresh_image"

text \<open>
  The fresh image with all 64 inodes in use and, in slot 2 of the root directory, an entry
  \<open>foo.txt\<close> of inode 5.
\<close>

definition exhausted_image :: disk where
  "exhausted_image =
     poke32
       [(17 * 4096, 0xFFFFFFFF), (17 * 4096 + 4, 0xFFFFFFFF),
        (21 * 4096 + 64, 5), (21 * 4096 + 68, 0x2E6F6F66), (21 * 4096 + 72, 0x00747874)]
       fresh_image"

text \<open>The fresh image with an initialised journal header that says 61588 bytes are used.\<close>

definition nearly_full_image :: disk where
  "nearly_full_image = poke32 [(4096, JOURNAL_MAGIC), (4100, 61588)] fresh_image"

text \<open>
  The fresh image with a journal of 108 used bytes: at offset 8 a data record for block 30
  whose declared size is 4104, so that it runs past the 108 bytes, and whose payload has
  the byte \<open>0xAB\<close> at index 200 (journal offset 216).
\<close>

definition truncated_record_image :: disk where
  "truncated_record_image =
     poke32
       [(4096, JOURNAL_MAGIC), (4100, 108),
        (4096 + 8, 0x10080001), (4096 + 12, 30), (4096 + 216, 0xAB)]
       fresh_image"


text \<open>The fresh image after a create of \<open>foo.txt\<close> at time 1000, and after the install.\<close>

definition staged_image :: disk where
  "staged_image = snd (cmd_create Harmless (c_string ''foo.txt'') 1000 fresh_image)"

definition installed_image :: disk where
  "installed_image = snd (the (cmd_install staged_image))"

text \<open>The image with inodes 0..31 in use, after a create of \<open>foo.txt\<close> at time 1000.\<close>

definition staged_second_block_image :: disk where
  "staged_second_block_image =
     snd (cmd_create Harmless (c_string ''foo.txt'') 1000 first_block_full_image)"

text \<open>
  The fresh image with inode 5 in use and an entry \<open>foo.txt\<close> of inode 5 in slot 3 of the
  root directory, slot 2 being unused.
\<close>

definition hole_image :: disk where
  "hole_image =
     poke32
       [(17 * 4096, 0x21),
        (21 * 4096 + 96, 5), (21 * 4096 + 100, 0x2E6F6F66), (21 * 4096 + 104, 0x00747874)]
       fresh_image"

text \<open>The fresh image with an initialised journal header whose \<open>nbytes_used\<close> is \<open>0xFFFFD000\<close>.\<close>

definition wrapped_header_image :: disk where
  "wrapped_header_image = poke32 [(4096, JOURNAL_MAGIC), (4100, 0xFFFFD000)] fresh_image"



section \<open>Basic facts\<close>

subsection \<open>Reading and writing the journal region\<close>

lemma unat_journal_block:
  "i < 16 \<Longrightarrow> unat (JOURNAL_BLOCK_IDX + word_of_nat i) = 1 + i"
  by (simp add: JOURNAL_BLOCK_IDX_def unat_word_ariths unat_of_nat)

lemma read_journal_blocks_apply:
  "n \<le> 16 \<Longrightarrow>
   read_journal_blocks d n jb i = (if i < n * BLOCK_SIZE then d (BLOCK_SIZE + i) else jb i)"
proof (induction n)
  case 0
  then show ?case by simp
next
  case (Suc n)
  then have n: "n < 16" by simp
  show ?case
    using Suc.IH n
    by (auto simp add: memcpy_def read_block_def unat_journal_block BLOCK_SIZE_def)
qed

lemma read_journal_apply:
  "read_journal d i = (if i < JOURNAL_SIZE then d (BLOCK_SIZE + i) else 0)"
  by (simp add: read_journal_def read_journal_blocks_apply JOURNAL_BLOCKS_def JOURNAL_SIZE_def)

lemma write_journal_blocks_apply:
  "n \<le> 16 \<Longrightarrow>
   write_journal_blocks d n jb a =
     (if BLOCK_SIZE \<le> a \<and> a < BLOCK_SIZE + n * BLOCK_SIZE then jb (a - BLOCK_SIZE) else d a)"
proof (induction n)
  case 0
  then show ?case by auto
next
  case (Suc n)
  then have n: "n < 16" by simp
  show ?case
    using Suc.IH n
    by (auto simp add: write_block_def unat_journal_block BLOCK_SIZE_def)
qed

lemma write_journal_apply:
  "write_journal d jb a =
     (if BLOCK_SIZE \<le> a \<and> a < BLOCK_SIZE + JOURNAL_SIZE then jb (a - BLOCK_SIZE) else d a)"
  by (simp add: write_journal_def write_journal_blocks_apply JOURNAL_BLOCKS_def JOURNAL_SIZE_def)

subsection \<open>Fields read back\<close>

lemma load32_store32: "load32 (store32 m a v) a = v"
  apply (simp add: load32_def store32_def)
  apply (rule bit_word_eqI)
  subgoal for n
    by (cases "n < 8"; cases "n < 16"; cases "n < 24") (auto simp add: bit_simps not_less)
  done

lemma load16_store16: "load16 (store16 m a v) a = v"
  apply (simp add: load16_def store16_def)
  apply (rule bit_word_eqI)
  apply (auto simp add: bit_simps)
  done


subsection \<open>Evaluation on concrete images\<close>

lemmas eval_defs = layout_defs load16_def load32_def store16_def store32_def memcpy_def memset0_def
  strlen_def strncpy_def read_block_def write_block_def bitmap_test_def bitmap_set_def bitmap_find_free_def
  sb_magic_def sb_inode_count_def inode_type_def inode_links_def inode_size_def inode_direct_def
  inode_ctime_def inode_mtime_def dirent_inode_def dirent_name_def jh_magic_def jh_nbytes_used_def
  rec_type_def rec_size_def rec_block_no_def rec_data_def read_journal_apply write_journal_apply
  init_journal_def journal_is_initialized_def append_data_record_def append_commit_record_def
  update_journal_header_def max_entries_def dirent_unused_def inode_count_def inode_bitmap_def
  inode_block_def root_data_blk_def root_directory_def inode_block_idx_def inode_offset_def
  new_inode_bitmap_def new_inode_block_def new_root_data_block_def read_superblock_def
  create_lookup_def init_file_inode_def set_dirent_def
  touch_root_inode_def total_needed_def open_journal_def stage_create_def cmd_create_def cmd_install_def
  apply_record_def records_for_def in_journal_region_def c_string_def poke32_def
  bitmap_find_free_from.simps scan_root_dir.simps count_commits.simps replay_records.simps
  data_records.simps Let_def


subsection \<open>What a create can do to the image\<close>

lemma stage_create_cases:
  "stage_create filename now d ino slot = (Inl JournalFull, d) \<or>
   (\<exists>j. stage_create filename now d ino slot = (Inr (), write_journal d j))"
  by (auto simp add: stage_create_def Let_def split: prod.splits)

lemma cmd_create_cases:
  "(\<exists>e. cmd_create w filename now d = (Inl e, d)) \<or>
   (\<exists>j. cmd_create w filename now d = (Inr (), write_journal d j))"
  using stage_create_cases [of filename now d]
  by (auto simp add: cmd_create_def split: sum.splits prod.splits)

lemma cmd_create_failure_unchanged:
  "fst (cmd_create w filename now d) \<noteq> Inr () \<Longrightarrow> snd (cmd_create w filename now d) = d"
  using cmd_create_cases [of w filename now d] by auto

lemma write_journal_outside:
  "\<not> in_journal_region b \<Longrightarrow> i < BLOCK_SIZE \<Longrightarrow>
   read_block (write_journal d j) b i = read_block d b i"
  by (auto simp add: read_block_def write_journal_apply in_journal_region_def layout_defs)

subsection \<open>The free-inode search and the directory scan\<close>

lemma word_of_nat_neq_minus_one:
  "i < 2 ^ 32 - 1 \<Longrightarrow> (word_of_nat i :: 32 word) \<noteq> - 1"
proof
  assume i: "i < 2 ^ 32 - 1" and eq: "(word_of_nat i :: 32 word) = - 1"
  have m: "unat (- 1 :: 32 word) = 4294967295"
    by (simp add: unsigned_minus_1_eq_mask mask_eq_exp_minus_1)
  from eq have "unat (word_of_nat i :: 32 word) = unat (- 1 :: 32 word)" by simp
  with i m show False by (simp add: unat_of_nat)
qed

lemma unat_word_of_nat_32: "i < 2 ^ 32 \<Longrightarrow> unat (word_of_nat i :: 32 word) = i"
  by (simp add: unat_of_nat)

lemma bitmap_find_free_from_none:
  "n < 2 ^ 32 \<Longrightarrow>
   (bitmap_find_free_from bm n i = - 1) = (\<forall>k. i \<le> k \<and> k < n \<longrightarrow> bitmap_test bm k)"
proof (induction bm n i rule: bitmap_find_free_from.induct)
  case (1 bm n i)
  show ?case
  proof (cases "i < n")
    case False
    then show ?thesis by (auto simp add: bitmap_find_free_from.simps [of bm n i])
  next
    case lt: True
    show ?thesis
    proof (cases "bitmap_test bm i")
      case False
      from lt "1.prems" have "(word_of_nat i :: 32 word) \<noteq> - 1"
        by (intro word_of_nat_neq_minus_one) simp
      with lt False show ?thesis
        by (auto simp add: bitmap_find_free_from.simps [of bm n i])
    next
      case True
      have step: "bitmap_find_free_from bm n i = bitmap_find_free_from bm n (i + 1)"
        using lt True by (simp add: bitmap_find_free_from.simps [of bm n i])
      have "(\<forall>k. i \<le> k \<and> k < n \<longrightarrow> bitmap_test bm k) =
            (\<forall>k. i + 1 \<le> k \<and> k < n \<longrightarrow> bitmap_test bm k)"
        using True by (metis Suc_eq_plus1 Suc_leI le_neq_implies_less add_leD1 le_add1 order.trans)
      with step "1.IH" [OF lt _ "1.prems"] True show ?thesis by simp
    qed
  qed
qed

lemma bitmap_find_free_from_some:
  "n < 2 ^ 32 \<Longrightarrow> bitmap_find_free_from bm n i \<noteq> - 1 \<Longrightarrow>
   i \<le> unat (bitmap_find_free_from bm n i) \<and> unat (bitmap_find_free_from bm n i) < n \<and>
   \<not> bitmap_test bm (unat (bitmap_find_free_from bm n i))"
proof (induction bm n i rule: bitmap_find_free_from.induct)
  case (1 bm n i)
  show ?case
  proof (cases "i < n")
    case False
    with "1.prems" show ?thesis by (simp add: bitmap_find_free_from.simps [of bm n i])
  next
    case lt: True
    show ?thesis
    proof (cases "bitmap_test bm i")
      case False
      with lt "1.prems" show ?thesis
        by (simp add: bitmap_find_free_from.simps [of bm n i] unat_of_nat)
    next
      case True
      have step: "bitmap_find_free_from bm n i = bitmap_find_free_from bm n (i + 1)"
        using lt True by (simp add: bitmap_find_free_from.simps [of bm n i])
      from "1.IH" [OF lt _ "1.prems"(1)] True "1.prems"(2) step show ?thesis by simp
    qed
  qed
qed

lemma bitmap_find_free_none:
  "(bitmap_find_free bm max_bits = - 1) = (\<forall>k < unat max_bits. bitmap_test bm k)"
proof -
  have "unat max_bits < 2 ^ 32" using unsigned_less [of max_bits] by simp
  then show ?thesis
    by (simp add: bitmap_find_free_def bitmap_find_free_from_none)
qed

lemma bitmap_find_free_some:
  assumes "bitmap_find_free bm max_bits \<noteq> - 1"
  shows "unat (bitmap_find_free bm max_bits) < unat max_bits"
    and "\<not> bitmap_test bm (unat (bitmap_find_free bm max_bits))"
proof -
  have "unat max_bits < 2 ^ 32" using unsigned_less [of max_bits] by simp
  from bitmap_find_free_from_some [OF this, of bm 0] assms
  show "unat (bitmap_find_free bm max_bits) < unat max_bits"
    and "\<not> bitmap_test bm (unat (bitmap_find_free bm max_bits))"
    by (simp_all add: bitmap_find_free_def)
qed

lemma max_entries_val: "max_entries = 128"
  by (simp add: max_entries_def layout_defs)

lemma scan_root_dir_error:
  "scan_root_dir e f i = Inl err \<Longrightarrow> err = DuplicateName"
proof (induction e f i rule: scan_root_dir.induct)
  case (1 e f i)
  then show ?case
    by (subst (asm) (2) scan_root_dir.simps) (auto split: if_splits)
qed

lemma scan_root_dir_duplicate:
  "i \<le> k \<Longrightarrow> k < max_entries \<Longrightarrow> strcmp_eq e (dirent_name k) f \<Longrightarrow>
   \<forall>j. i \<le> j \<and> j \<le> k \<longrightarrow> \<not> dirent_unused e j \<Longrightarrow>
   scan_root_dir e f i = Inl DuplicateName"
proof (induction e f i rule: scan_root_dir.induct)
  case (1 e f i)
  have lt: "i < max_entries" using "1.prems" by simp
  have used: "\<not> dirent_unused e i" using "1.prems" by simp
  show ?case
  proof (cases "strcmp_eq e (dirent_name i) f")
    case True
    with lt used show ?thesis by (simp add: scan_root_dir.simps [of e f i])
  next
    case False
    with "1.prems" have "i \<noteq> k" by auto
    with "1.prems" have le: "i + 1 \<le> k" by simp
    have "scan_root_dir e f (i + 1) = Inl DuplicateName"
      using "1.IH" [OF lt used False le] "1.prems" by simp
    with lt used False show ?thesis by (simp add: scan_root_dir.simps [of e f i])
  qed
qed

lemma scan_root_dir_full:
  "\<forall>k. i \<le> k \<and> k < max_entries \<longrightarrow> \<not> dirent_unused e k \<and> \<not> strcmp_eq e (dirent_name k) f \<Longrightarrow>
   scan_root_dir e f i = Inr (- 1)"
proof (induction e f i rule: scan_root_dir.induct)
  case (1 e f i)
  show ?case
  proof (cases "i < max_entries")
    case False
    then show ?thesis by (simp add: scan_root_dir.simps [of e f i])
  next
    case True
    with "1.prems" have a: "\<not> dirent_unused e i" and b: "\<not> strcmp_eq e (dirent_name i) f"
      by auto
    have "scan_root_dir e f (i + 1) = Inr (- 1)"
      using "1.IH" [OF True a b] "1.prems" by simp
    with True a b show ?thesis by (simp add: scan_root_dir.simps [of e f i])
  qed
qed

lemma scan_root_dir_slot:
  "scan_root_dir e f i = Inr s \<Longrightarrow> s \<noteq> - 1 \<Longrightarrow>
   i \<le> unat s \<and> unat s < max_entries \<and> dirent_unused e (unat s)"
proof (induction e f i rule: scan_root_dir.induct)
  case (1 e f i)
  show ?case
  proof (cases "i < max_entries")
    case False
    with "1.prems" show ?thesis by (simp add: scan_root_dir.simps [of e f i])
  next
    case lt: True
    show ?thesis
    proof (cases "dirent_unused e i")
      case True
      with lt "1.prems" show ?thesis
        by (auto simp add: scan_root_dir.simps [of e f i] unat_of_nat max_entries_val)
    next
      case False
      with lt "1.prems" have b: "\<not> strcmp_eq e (dirent_name i) f"
        and step: "scan_root_dir e f (i + 1) = Inr s"
        by (auto simp add: scan_root_dir.simps [of e f i] split: if_splits)
      from "1.IH" [OF lt False b step "1.prems"(2)] show ?thesis by simp
    qed
  qed
qed

subsection \<open>What an install does\<close>

lemma read_journal_write_journal:
  "read_journal (write_journal d j) i = (if i < JOURNAL_SIZE then j i else 0)"
  by (simp add: read_journal_apply write_journal_apply)





lemma read_block_write_block:
  assumes "i < BLOCK_SIZE"
  shows "read_block (write_block d b p) b' i = (if b' = b then p i else read_block d b' i)"
proof (cases "b' = b")
  case True
  with assms show ?thesis by (simp add: read_block_def write_block_def)
next
  case False
  then have "unat b' \<noteq> unat b" by (simp add: word_unat_eq_iff)
  then have "unat b' < unat b \<or> unat b < unat b'" by arith
  with assms False show ?thesis
    by (auto simp add: read_block_def write_block_def BLOCK_SIZE_def)
qed








subsection \<open>A create on an empty journal, then an install\<close>

lemma open_journal_magic: "jh_magic (open_journal d) = JOURNAL_MAGIC"
  by (simp add: open_journal_def Let_def journal_is_initialized_def jh_magic_def
      init_journal_def load32_def store32_def memset0_def layout_defs)

lemma word32_of_bytes:
  fixes v :: "32 word"
  shows "ucast (ucast v :: 8 word) OR push_bit 8 (ucast (ucast (drop_bit 8 v) :: 8 word))
     OR push_bit 16 (ucast (ucast (drop_bit 16 v) :: 8 word))
     OR push_bit 24 (ucast (ucast (drop_bit 24 v) :: 8 word)) = v"
  using load32_store32 [of "\<lambda>i. 0" 0 v] by (simp add: load32_def store32_def)

lemma word16_of_bytes:
  fixes v :: "16 word"
  shows "ucast (ucast v :: 8 word) OR push_bit 8 (ucast (ucast (drop_bit 8 v) :: 8 word)) = v"
  using load16_store16 [of "\<lambda>i. 0" 0 v] by (simp add: load16_def store16_def)

lemmas journal_field_defs =
  append_data_record_def append_commit_record_def update_journal_header_def
  rec_type_def rec_size_def rec_block_no_def rec_data_def jh_magic_def jh_nbytes_used_def
  load16_def load32_def store16_def store32_def memcpy_def

lemma stage_create_empty:
  assumes empty: "jh_nbytes_used (open_journal d) = 8"
  shows "\<exists>J. stage_create filename now d ino slot = (Inr (), write_journal d J) \<and>
    jh_magic J = JOURNAL_MAGIC \<and> jh_nbytes_used J = 12324 \<and>
    rec_type J 8 = REC_DATA \<and> rec_size J 8 = 4104 \<and> rec_block_no J 8 = INODE_BMAP_IDX \<and>
    (\<forall>i < BLOCK_SIZE. rec_data J 8 i = new_inode_bitmap d ino i) \<and>
    rec_type J 4112 = REC_DATA \<and> rec_size J 4112 = 4104 \<and>
    rec_block_no J 4112 = INODE_START_IDX + word_of_nat (inode_block_idx ino) \<and>
    (\<forall>i < BLOCK_SIZE. rec_data J 4112 i = new_inode_block d ino now i) \<and>
    rec_type J 8216 = REC_DATA \<and> rec_size J 8216 = 4104 \<and>
    rec_block_no J 8216 = root_data_blk d \<and>
    (\<forall>i < BLOCK_SIZE. rec_data J 8216 i = new_root_data_block d ino slot filename i) \<and>
    rec_type J 12320 = REC_COMMIT \<and> rec_size J 12320 = 4"
proof -
  define a1 where "a1 = append_data_record (open_journal d) 8 INODE_BMAP_IDX
      (new_inode_bitmap d ino)"
  define a2 where "a2 = append_data_record (fst a1) (snd a1)
      (INODE_START_IDX + word_of_nat (inode_block_idx ino)) (new_inode_block d ino now)"
  define a3 where "a3 = append_data_record (fst a2) (snd a2) (root_data_blk d)
      (new_root_data_block d ino slot filename)"
  define a4 where "a4 = append_commit_record (fst a3) (snd a3)"
  define J where "J = update_journal_header (fst a4) (snd a4)"
  note defs = J_def a4_def a3_def a2_def a1_def journal_field_defs layout_defs Let_def
    word32_of_bytes
  have run: "stage_create filename now d ino slot = (Inr (), write_journal d J)"
    by (simp add: stage_create_def Let_def split_beta empty total_needed_def layout_defs
        J_def a4_def a3_def a2_def a1_def)
  have m: "load32 (open_journal d) 0 = 0x4A524E4C"
    using open_journal_magic [of d] by (simp add: jh_magic_def JOURNAL_MAGIC_def)
  have magic: "jh_magic J = JOURNAL_MAGIC"
    using m by (simp add: defs)
  have used: "jh_nbytes_used J = 12324" by (simp add: defs)
  have r1: "rec_type J 8 = REC_DATA" "rec_size J 8 = 4104" "rec_block_no J 8 = INODE_BMAP_IDX"
    by (simp_all add: defs)
  have p1: "\<forall>i < BLOCK_SIZE. rec_data J 8 i = new_inode_bitmap d ino i"
    by (simp add: defs)
  have r2: "rec_type J 4112 = REC_DATA" "rec_size J 4112 = 4104"
    "rec_block_no J 4112 = INODE_START_IDX + word_of_nat (inode_block_idx ino)"
    by (simp_all add: defs)
  have p2: "\<forall>i < BLOCK_SIZE. rec_data J 4112 i = new_inode_block d ino now i"
    by (simp add: defs)
  have r3: "rec_type J 8216 = REC_DATA" "rec_size J 8216 = 4104"
    "rec_block_no J 8216 = root_data_blk d"
    by (simp_all add: defs)
  have p3: "\<forall>i < BLOCK_SIZE. rec_data J 8216 i = new_root_data_block d ino slot filename i"
    by (simp add: defs)
  have r4: "rec_type J 12320 = REC_COMMIT" "rec_size J 12320 = 4"
    by (simp_all add: defs)
  from run magic used r1 p1 r2 p2 r3 p3 r4 show ?thesis by blast
qed

lemma journal_read_back:
  "jh_magic (read_journal (write_journal d J)) = jh_magic J"
  "jh_nbytes_used (read_journal (write_journal d J)) = jh_nbytes_used J"
  "p + 2 \<le> JOURNAL_SIZE \<Longrightarrow> rec_type (read_journal (write_journal d J)) p = rec_type J p"
  "p + 4 \<le> JOURNAL_SIZE \<Longrightarrow> rec_size (read_journal (write_journal d J)) p = rec_size J p"
  "p + 8 \<le> JOURNAL_SIZE \<Longrightarrow>
     rec_block_no (read_journal (write_journal d J)) p = rec_block_no J p"
  "p + 8 + i < JOURNAL_SIZE \<Longrightarrow>
     rec_data (read_journal (write_journal d J)) p i = rec_data J p i"
  by (simp_all add: read_journal_write_journal jh_magic_def jh_nbytes_used_def rec_type_def
      rec_size_def rec_block_no_def rec_data_def load16_def load32_def layout_defs)

lemma create_install_blocks:
  assumes lookup: "create_lookup w filename d = Inr (ino, slot)"
    and empty: "jh_nbytes_used (open_journal d) = 8"
  shows "\<exists>d1 d2. cmd_create w filename now d = (Inr (), d1) \<and>
     cmd_install d1 = Some (Inr 1, d2) \<and>
     (\<forall>b i. \<not> in_journal_region b \<and> i < BLOCK_SIZE \<longrightarrow>
        read_block d2 b i =
          (if b = root_data_blk d then new_root_data_block d ino slot filename i
           else if b = INODE_START_IDX + word_of_nat (inode_block_idx ino)
             then new_inode_block d ino now i
           else if b = INODE_BMAP_IDX then new_inode_bitmap d ino i
           else read_block d b i))"
proof -
  from stage_create_empty [OF empty, of filename now ino slot] obtain J where
    run: "stage_create filename now d ino slot = (Inr (), write_journal d J)"
    and hdr: "jh_magic J = JOURNAL_MAGIC" "jh_nbytes_used J = 12324"
    and r1: "rec_type J 8 = REC_DATA" "rec_size J 8 = 4104" "rec_block_no J 8 = INODE_BMAP_IDX"
    and p1: "\<forall>i < BLOCK_SIZE. rec_data J 8 i = new_inode_bitmap d ino i"
    and r2: "rec_type J 4112 = REC_DATA" "rec_size J 4112 = 4104"
      "rec_block_no J 4112 = INODE_START_IDX + word_of_nat (inode_block_idx ino)"
    and p2: "\<forall>i < BLOCK_SIZE. rec_data J 4112 i = new_inode_block d ino now i"
    and r3: "rec_type J 8216 = REC_DATA" "rec_size J 8216 = 4104"
      "rec_block_no J 8216 = root_data_blk d"
    and p3: "\<forall>i < BLOCK_SIZE. rec_data J 8216 i = new_root_data_block d ino slot filename i"
    and r4: "rec_type J 12320 = REC_COMMIT" "rec_size J 12320 = 4"
    by blast
  define d1 where "d1 = write_journal d J"
  define J' where "J' = read_journal d1"
  have create: "cmd_create w filename now d = (Inr (), d1)"
    by (simp add: cmd_create_def lookup run d1_def)
  have hdr': "jh_magic J' = JOURNAL_MAGIC" "jh_nbytes_used J' = 12324"
    by (simp_all add: J'_def d1_def journal_read_back hdr)
  have t: "rec_type J' 8 = REC_DATA" "rec_type J' 4112 = REC_DATA"
    "rec_type J' 8216 = REC_DATA" "rec_type J' 12320 = REC_COMMIT"
    by (simp_all add: J'_def d1_def journal_read_back r1 r2 r3 r4 JOURNAL_SIZE_def
        JOURNAL_BLOCKS_def BLOCK_SIZE_def)
  have s: "rec_size J' 8 = 4104" "rec_size J' 4112 = 4104"
    "rec_size J' 8216 = 4104" "rec_size J' 12320 = 4"
    by (simp_all add: J'_def d1_def journal_read_back r1 r2 r3 r4 JOURNAL_SIZE_def
        JOURNAL_BLOCKS_def BLOCK_SIZE_def)
  have b: "rec_block_no J' 8 = INODE_BMAP_IDX"
    "rec_block_no J' 4112 = INODE_START_IDX + word_of_nat (inode_block_idx ino)"
    "rec_block_no J' 8216 = root_data_blk d"
    by (simp_all add: J'_def d1_def journal_read_back r1 r2 r3 JOURNAL_SIZE_def
        JOURNAL_BLOCKS_def BLOCK_SIZE_def)
  have p: "rec_data J' 8 i = new_inode_bitmap d ino i"
    "rec_data J' 4112 i = new_inode_block d ino now i"
    "rec_data J' 8216 i = new_root_data_block d ino slot filename i"
    if "i < BLOCK_SIZE" for i
    using that p1 p2 p3
    by (simp_all add: J'_def d1_def journal_read_back JOURNAL_SIZE_def
        JOURNAL_BLOCKS_def BLOCK_SIZE_def)
  have count: "count_commits J' 12324 8 0 = Some 1"
    by (simp add: count_commits.simps t s REC_DATA_def REC_COMMIT_def sizeof_rec_header_def)
  define dr where "dr =
    write_block
      (write_block (write_block d1 INODE_BMAP_IDX (rec_data J' 8))
         (INODE_START_IDX + word_of_nat (inode_block_idx ino)) (rec_data J' 4112))
      (root_data_blk d) (rec_data J' 8216)"
  have replay: "replay_records J' 12324 8 d1 = Some dr"
    by (simp add: replay_records.simps t s b REC_DATA_def REC_COMMIT_def sizeof_rec_header_def
        dr_def)
  define d2 where "d2 = write_journal dr (init_journal J')"
  have install: "cmd_install d1 = Some (Inr 1, d2)"
    using hdr' count replay
    by (simp add: cmd_install_def J'_def [symmetric] journal_is_initialized_def
        sizeof_journal_header_def d2_def)
  have blocks: "read_block d2 b i =
          (if b = root_data_blk d then new_root_data_block d ino slot filename i
           else if b = INODE_START_IDX + word_of_nat (inode_block_idx ino)
             then new_inode_block d ino now i
           else if b = INODE_BMAP_IDX then new_inode_bitmap d ino i
           else read_block d b i)"
    if "\<not> in_journal_region b" "i < BLOCK_SIZE" for b i
    using that
    by (simp add: d2_def dr_def d1_def write_journal_outside read_block_write_block p)
  from create install blocks show ?thesis by blast
qed

subsection \<open>The copies that a create journals\<close>

lemma bitmap_test_bitmap_set:
  "bitmap_test (bitmap_set bm k) j = (j = k \<or> bitmap_test bm j)"
proof (cases "j div 8 = k div 8")
  case True
  have eq: "(j = k) = (j mod 8 = k mod 8)"
    using True by (metis div_mult_mod_eq)
  have lt: "j mod 8 < 8" by simp
  show ?thesis
    using True lt
    by (auto simp add: bitmap_test_def bitmap_set_def eq bit_simps)
next
  case False
  then have "j \<noteq> k" by auto
  with False show ?thesis
    by (simp add: bitmap_test_def bitmap_set_def)
qed

lemmas inode_field_defs =
  inode_type_def inode_links_def inode_size_def inode_direct_def inode_ctime_def inode_mtime_def
  init_file_inode_def touch_root_inode_def load16_def load32_def store16_def store32_def
  memset0_def

lemma init_file_inode_fields:
  "inode_type (init_file_inode b p now) p = INODE_FILE"
  "inode_links (init_file_inode b p now) p = 1"
  "inode_size (init_file_inode b p now) p = 0"
  "k < DIRECT_POINTERS \<Longrightarrow> inode_direct (init_file_inode b p now) p k = 0"
  "inode_ctime (init_file_inode b p now) p = now"
  "inode_mtime (init_file_inode b p now) p = now"
  by (simp_all add: inode_field_defs Let_def layout_defs word32_of_bytes)

lemma touch_root_inode_other:
  "48 \<le> i \<Longrightarrow> touch_root_inode b now i = b i"
  "i < 4 \<or> (8 \<le> i \<and> i < 44) \<Longrightarrow> touch_root_inode b now i = b i"
  by (auto simp add: touch_root_inode_def store32_def Let_def)

lemma init_file_inode_other:
  "i < p \<or> p + 48 \<le> i \<Longrightarrow> init_file_inode b p now i = b i"
  by (auto simp add: init_file_inode_def store16_def store32_def memset0_def Let_def layout_defs)

lemma touched_inode_fields:
  assumes "48 \<le> p"
  shows "inode_type (touch_root_inode b now) p = inode_type b p"
    "inode_links (touch_root_inode b now) p = inode_links b p"
    "inode_size (touch_root_inode b now) p = inode_size b p"
    "inode_direct (touch_root_inode b now) p k = inode_direct b p k"
    "inode_ctime (touch_root_inode b now) p = inode_ctime b p"
    "inode_mtime (touch_root_inode b now) p = inode_mtime b p"
  using assms
  by (simp_all add: inode_type_def inode_links_def inode_size_def inode_direct_def
      inode_ctime_def inode_mtime_def load16_def load32_def touch_root_inode_other)

lemma inode_offset_root_block:
  assumes "ino \<noteq> 0" and "inode_block_idx ino = 0"
  shows "128 \<le> inode_offset ino * INODE_SIZE"
proof -
  from assms(1) have "unat ino \<noteq> 0" by (simp add: unsigned_eq_0_iff)
  with assms(2) have "1 \<le> inode_offset ino"
    by (simp add: inode_block_idx_def inode_offset_def layout_defs)
  then show ?thesis by (simp add: INODE_SIZE_def)
qed

lemma new_inode_block_fields:
  assumes "ino \<noteq> 0"
  shows "inode_type (new_inode_block d ino now) (inode_offset ino * INODE_SIZE) = INODE_FILE"
    "inode_links (new_inode_block d ino now) (inode_offset ino * INODE_SIZE) = 1"
    "inode_size (new_inode_block d ino now) (inode_offset ino * INODE_SIZE) = 0"
    "k < DIRECT_POINTERS \<Longrightarrow>
       inode_direct (new_inode_block d ino now) (inode_offset ino * INODE_SIZE) k = 0"
    "inode_ctime (new_inode_block d ino now) (inode_offset ino * INODE_SIZE) = now"
    "inode_mtime (new_inode_block d ino now) (inode_offset ino * INODE_SIZE) = now"
proof -
  let ?p = "inode_offset ino * INODE_SIZE"
  have p: "48 \<le> ?p" if "inode_block_idx ino = 0"
    using inode_offset_root_block [OF assms that] by simp
  show "inode_type (new_inode_block d ino now) ?p = INODE_FILE"
    by (cases "inode_block_idx ino = 0")
       (simp_all add: new_inode_block_def Let_def init_file_inode_fields touched_inode_fields p)
  show "inode_links (new_inode_block d ino now) ?p = 1"
    by (cases "inode_block_idx ino = 0")
       (simp_all add: new_inode_block_def Let_def init_file_inode_fields touched_inode_fields p)
  show "inode_size (new_inode_block d ino now) ?p = 0"
    by (cases "inode_block_idx ino = 0")
       (simp_all add: new_inode_block_def Let_def init_file_inode_fields touched_inode_fields p)
  show "inode_direct (new_inode_block d ino now) ?p k = 0" if "k < DIRECT_POINTERS"
    using that
    by (cases "inode_block_idx ino = 0")
       (simp_all add: new_inode_block_def Let_def init_file_inode_fields touched_inode_fields p)
  show "inode_ctime (new_inode_block d ino now) ?p = now"
    by (cases "inode_block_idx ino = 0")
       (simp_all add: new_inode_block_def Let_def init_file_inode_fields touched_inode_fields p)
  show "inode_mtime (new_inode_block d ino now) ?p = now"
    by (cases "inode_block_idx ino = 0")
       (simp_all add: new_inode_block_def Let_def init_file_inode_fields touched_inode_fields p)
qed

lemma new_inode_block_root_pointer:
  assumes "ino \<noteq> 0" and "inode_block_idx ino = 0" and "8 \<le> i" and "i < 12"
  shows "new_inode_block d ino now i = inode_block d i"
  using inode_offset_root_block [OF assms(1,2)] assms
  by (simp add: new_inode_block_def Let_def touch_root_inode_other init_file_inode_other)

lemma strlen_Cons: "strlen (c # cs) = (if c = 0 then 0 else Suc (strlen cs))"
  by (simp add: strlen_def)

lemma strcmp_eq_bytes:
  "\<forall>i < strlen f. m (p + i) = f ! i \<Longrightarrow> m (p + strlen f) = 0 \<Longrightarrow> strcmp_eq m p f"
proof (induction f arbitrary: p)
  case Nil
  then show ?case by (simp add: strlen_def)
next
  case (Cons c cs)
  show ?case
  proof (cases "c = 0")
    case True
    with Cons.prems show ?thesis by (simp add: strlen_Cons)
  next
    case False
    from Cons.prems(1) False have head: "m p = c"
      by (auto simp add: strlen_Cons dest: spec [of _ 0])
    have "\<forall>i < strlen cs. m (p + 1 + i) = cs ! i"
    proof (intro allI impI)
      fix i assume "i < strlen cs"
      with False have "Suc i < strlen (c # cs)" by (simp add: strlen_Cons)
      with Cons.prems(1) have "m (p + Suc i) = (c # cs) ! Suc i" by blast
      then show "m (p + 1 + i) = cs ! i" by simp
    qed
    moreover have "m (p + 1 + strlen cs) = 0"
      using Cons.prems(2) False by (simp add: strlen_Cons)
    ultimately have "strcmp_eq m (p + 1) cs" by (rule Cons.IH)
    with head False show ?thesis by simp
  qed
qed

lemma set_dirent_inode: "dirent_inode (set_dirent b s ino f) s = ino"
  by (simp add: dirent_inode_def set_dirent_def Let_def strncpy_def dirent_name_def
      load32_def store32_def layout_defs word32_of_bytes)

lemma set_dirent_name:
  assumes "strlen f < NAME_LEN"
  shows "strcmp_eq (set_dirent b s ino f) (dirent_name s) f"
proof (rule strcmp_eq_bytes)
  show "\<forall>i < strlen f. set_dirent b s ino f (dirent_name s + i) = f ! i"
    using assms
    by (auto simp add: set_dirent_def Let_def strncpy_def dirent_name_def layout_defs)
  show "set_dirent b s ino f (dirent_name s + strlen f) = 0"
    using assms
    by (auto simp add: set_dirent_def Let_def strncpy_def dirent_name_def layout_defs)
qed

lemma set_dirent_other:
  "\<not> (s * sizeof_dirent \<le> i \<and> i < s * sizeof_dirent + sizeof_dirent) \<Longrightarrow>
   set_dirent b s ino f i = b i"
  by (auto simp add: set_dirent_def Let_def strncpy_def dirent_name_def store32_def layout_defs)

lemma set_dirent_name_bytes:
  assumes "strlen f < NAME_LEN"
  shows "\<forall>i < strlen f. set_dirent b s ino f (dirent_name s + i) = f ! i"
    and "set_dirent b s ino f (dirent_name s + strlen f) = 0"
  using assms
  by (auto simp add: set_dirent_def Let_def strncpy_def dirent_name_def layout_defs)

lemma create_lookup_success:
  assumes "create_lookup w f d = Inr (ino, slot)"
  shows "strlen f < NAME_LEN"
    and "ino = bitmap_find_free (inode_bitmap d) (sb_inode_count (read_block d 0))"
    and "ino \<noteq> - 1"
    and "scan_root_dir (root_directory d) f 0 = Inr slot"
    and "slot \<noteq> - 1"
  using assms
  by (auto simp add: create_lookup_def read_superblock_def Let_def split: if_splits sum.splits)

lemma inode_fields_cong:
  assumes "\<forall>i < BLOCK_SIZE. b i = b' i" and "p + 48 \<le> BLOCK_SIZE"
  shows "inode_type b p = inode_type b' p" "inode_links b p = inode_links b' p"
    "inode_size b p = inode_size b' p"
    "k < DIRECT_POINTERS \<Longrightarrow> inode_direct b p k = inode_direct b' p k"
    "inode_ctime b p = inode_ctime b' p" "inode_mtime b p = inode_mtime b' p"
  using assms
  by (simp_all add: inode_type_def inode_links_def inode_size_def inode_direct_def
      inode_ctime_def inode_mtime_def load16_def load32_def layout_defs)

lemma dirent_inode_cong:
  assumes "\<forall>i < BLOCK_SIZE. b i = b' i" and "s < max_entries"
  shows "dirent_inode b s = dirent_inode b' s"
  using assms
  by (simp add: dirent_inode_def load32_def max_entries_val layout_defs)

lemma bitmap_test_cong:
  assumes "\<forall>i < BLOCK_SIZE. b i = b' i" and "k < 8 * BLOCK_SIZE"
  shows "bitmap_test b k = bitmap_test b' k"
  using assms by (simp add: bitmap_test_def BLOCK_SIZE_def)


subsection \<open>An install that returns\<close>


subsection \<open>The capacity check, and the round trip on an empty journal\<close>

lemma create_journal_full_no_wrap:
  assumes nowrap: "unat (jh_nbytes_used (open_journal d)) + unat total_needed < 2 ^ 32"
    and full: "JOURNAL_SIZE < unat (jh_nbytes_used (open_journal d)) + unat total_needed"
  shows "fst (cmd_create w filename now d) \<noteq> Inr () \<and>
         snd (cmd_create w filename now d) = d \<and>
         (\<forall>free_inode free_entry.
            create_lookup w filename d = Inr (free_inode, free_entry) \<longrightarrow>
            cmd_create w filename now d = (Inl JournalFull, d))"
proof -
  have gt: "jh_nbytes_used (open_journal d) + total_needed > word_of_nat JOURNAL_SIZE"
    using nowrap full
    by (simp add: word_less_nat_alt unat_word_ariths unat_of_nat JOURNAL_SIZE_def
        JOURNAL_BLOCKS_def BLOCK_SIZE_def)
  have stage: "stage_create filename now d ino slot = (Inl JournalFull, d)" for ino slot
    using gt by (simp add: stage_create_def Let_def)
  show ?thesis
    by (auto simp add: cmd_create_def stage split: sum.splits prod.splits)
qed

lemma create_journal_full_nearly_full:
  "unat (jh_nbytes_used (open_journal nearly_full_image)) + unat total_needed < 2 ^ 32 \<and>
   JOURNAL_SIZE < unat (jh_nbytes_used (open_journal nearly_full_image)) + unat total_needed \<and>
   create_lookup Harmless (c_string ''foo.txt'') nearly_full_image = Inr (1, 2) \<and>
   cmd_create Harmless (c_string ''foo.txt'') 1000 nearly_full_image = (Inl JournalFull, nearly_full_image)"
proof -
  have nowrap: "unat (jh_nbytes_used (open_journal nearly_full_image)) + unat total_needed < 2 ^ 32"
    by (simp add: eval_defs fresh_image_def nearly_full_image_def)
  have full: "JOURNAL_SIZE < unat (jh_nbytes_used (open_journal nearly_full_image)) + unat total_needed"
    by (simp add: eval_defs fresh_image_def nearly_full_image_def)
  have look: "create_lookup Harmless (c_string ''foo.txt'') nearly_full_image = Inr (1, 2)"
    by (simp add: eval_defs fresh_image_def nearly_full_image_def)
  from create_journal_full_no_wrap [OF nowrap full, where filename = "c_string ''foo.txt''" and now = 1000 and w = Harmless] look nowrap full
  show ?thesis by simp
qed

lemma create_install_round_trip:
  assumes lookup: "create_lookup w filename d = Inr (ino, slot)"
    and empty: "jh_nbytes_used (open_journal d) = word_of_nat sizeof_journal_header"
    and root_used: "bitmap_test (inode_bitmap d) 0"
    and count: "inode_count d \<le> INODE_BLOCKS * (BLOCK_SIZE div INODE_SIZE)"
    and data: "DATA_START_IDX \<le> root_data_blk d"
  shows "\<exists>d1 d2.
     cmd_create w filename now d = (Inr (), d1) \<and>
     cmd_install d1 = Some (Inr 1, d2) \<and>
     \<not> bitmap_test (inode_bitmap d) (unat ino) \<and>
     bitmap_test (inode_bitmap d2) (unat ino) \<and>
     (\<forall>k < 8 * BLOCK_SIZE. k \<noteq> unat ino \<longrightarrow>
        bitmap_test (inode_bitmap d2) k = bitmap_test (inode_bitmap d) k) \<and>
     (let b = read_block d2 (INODE_START_IDX + word_of_nat (inode_block_idx ino));
          p = inode_offset ino * INODE_SIZE
      in inode_type b p = INODE_FILE \<and> inode_links b p = 1 \<and> inode_size b p = 0 \<and>
         (\<forall>k < DIRECT_POINTERS. inode_direct b p k = 0) \<and>
         inode_ctime b p = now \<and> inode_mtime b p = now) \<and>
     root_data_blk d2 = root_data_blk d \<and>
     dirent_unused (root_directory d) (unat slot) \<and>
     dirent_inode (root_directory d2) (unat slot) = ino \<and>
     strcmp_eq (root_directory d2) (dirent_name (unat slot)) filename \<and>
     (\<forall>i < BLOCK_SIZE.
        \<not> (unat slot * sizeof_dirent \<le> i \<and> i < unat slot * sizeof_dirent + sizeof_dirent) \<longrightarrow>
        root_directory d2 i = root_directory d i)"
proof -
  note lk = create_lookup_success [OF lookup]
  have len: "strlen filename < NAME_LEN" by (rule lk(1))
  have ino_lt: "unat ino < inode_count d" and ino_free: "\<not> bitmap_test (inode_bitmap d) (unat ino)"
    using bitmap_find_free_some [of "inode_bitmap d" "sb_inode_count (read_block d 0)"] lk(2,3)
    by (simp_all add: inode_count_def)
  have "unat ino \<noteq> 0"
  proof
    assume "unat ino = 0"
    with ino_free root_used show False by simp
  qed
  then have ino0: "ino \<noteq> 0" by auto
  from ino_lt count have ino64: "unat ino < 64" by (simp add: layout_defs)
  then have idx: "inode_block_idx ino \<le> 1" and off: "inode_offset ino < 32"
    by (simp_all add: inode_block_idx_def inode_offset_def layout_defs)
  have slot: "unat slot < max_entries" "dirent_unused (root_directory d) (unat slot)"
    using scan_root_dir_slot [OF lk(4,5)] by simp_all
  let ?ib = "INODE_START_IDX + word_of_nat (inode_block_idx ino) :: 32 word"
  let ?rdb = "root_data_blk d"
  let ?p = "inode_offset ino * INODE_SIZE"
  have u_ib: "unat ?ib = 19 + inode_block_idx ino"
    using idx by (simp add: layout_defs unat_word_ariths unat_of_nat)
  have u_rdb: "21 \<le> unat ?rdb"
    using data by (simp add: word_le_nat_alt layout_defs)
  have u_bm: "unat INODE_BMAP_IDX = 17" and u_is: "unat INODE_START_IDX = 19"
    by (simp_all add: layout_defs)
  have out: "\<not> in_journal_region INODE_BMAP_IDX" "\<not> in_journal_region ?ib"
    "\<not> in_journal_region ?rdb" "\<not> in_journal_region INODE_START_IDX"
    using u_ib u_rdb by (simp_all add: in_journal_region_def layout_defs)
  have ne: "INODE_BMAP_IDX \<noteq> ?rdb" "INODE_BMAP_IDX \<noteq> ?ib" "?ib \<noteq> ?rdb"
    "INODE_START_IDX \<noteq> ?rdb" "INODE_START_IDX \<noteq> INODE_BMAP_IDX"
    using u_ib u_rdb u_bm u_is idx by (auto simp only: word_unat_eq_iff)
  have ib19: "(INODE_START_IDX = ?ib) = (inode_block_idx ino = 0)"
    using u_ib u_is by (auto simp add: word_unat_eq_iff)
  from create_install_blocks [OF lookup, where now = now] empty obtain d1 d2 where
    create: "cmd_create w filename now d = (Inr (), d1)"
    and install: "cmd_install d1 = Some (Inr 1, d2)"
    and blocks: "\<And>b i. \<not> in_journal_region b \<Longrightarrow> i < BLOCK_SIZE \<Longrightarrow>
        read_block d2 b i =
          (if b = ?rdb then new_root_data_block d ino slot filename i
           else if b = ?ib then new_inode_block d ino now i
           else if b = INODE_BMAP_IDX then new_inode_bitmap d ino i
           else read_block d b i)"
    by (auto simp add: sizeof_journal_header_def)
  have bm: "\<forall>i < BLOCK_SIZE. inode_bitmap d2 i = new_inode_bitmap d ino i"
    using blocks [OF out(1)] ne by (simp add: inode_bitmap_def)
  have ib: "\<forall>i < BLOCK_SIZE. read_block d2 ?ib i = new_inode_block d ino now i"
    using blocks [OF out(2)] ne by simp
  have rd: "\<forall>i < BLOCK_SIZE. read_block d2 ?rdb i = new_root_data_block d ino slot filename i"
    using blocks [OF out(3)] by simp
  have bit: "bitmap_test (inode_bitmap d2) k = (k = unat ino \<or> bitmap_test (inode_bitmap d) k)"
    if "k < 8 * BLOCK_SIZE" for k
    using bitmap_test_cong [OF bm that]
    by (simp add: new_inode_bitmap_def bitmap_test_bitmap_set)
  have ino_bits: "unat ino < 8 * BLOCK_SIZE" using ino64 by (simp add: BLOCK_SIZE_def)
  have p_in: "?p + 48 \<le> BLOCK_SIZE" using off by (simp add: layout_defs)
  note f = inode_fields_cong [OF ib p_in] new_inode_block_fields [OF ino0, where d = d and now = now]
  have inode: "inode_type (read_block d2 ?ib) ?p = INODE_FILE"
    "inode_links (read_block d2 ?ib) ?p = 1" "inode_size (read_block d2 ?ib) ?p = 0"
    "\<forall>k < DIRECT_POINTERS. inode_direct (read_block d2 ?ib) ?p k = 0"
    "inode_ctime (read_block d2 ?ib) ?p = now" "inode_mtime (read_block d2 ?ib) ?p = now"
    by (simp_all add: f)
  have ptr: "inode_block d2 i = inode_block d i" if "8 \<le> i" "i < 12" for i
  proof (cases "inode_block_idx ino = 0")
    case True
    with ib19 have "INODE_START_IDX = ?ib" by blast
    with blocks [OF out(4), of i] that ne show ?thesis
      by (simp add: inode_block_def BLOCK_SIZE_def
          new_inode_block_root_pointer [OF ino0 True that])
  next
    case False
    with ib19 have "INODE_START_IDX \<noteq> ?ib" by blast
    with blocks [OF out(4), of i] that ne show ?thesis
      by (simp add: inode_block_def BLOCK_SIZE_def)
  qed
  have rdb: "root_data_blk d2 = ?rdb"
    by (simp add: root_data_blk_def inode_direct_def load32_def ptr)
  have dir: "\<forall>i < BLOCK_SIZE. root_directory d2 i =
      set_dirent (root_directory d) (unat slot) ino filename i"
    using rd by (simp add: root_directory_def rdb new_root_data_block_def)
  have d_ino: "dirent_inode (root_directory d2) (unat slot) = ino"
    using dirent_inode_cong [OF dir slot(1)] by (simp add: set_dirent_inode)
  have name_in: "dirent_name (unat slot) + i < BLOCK_SIZE" if "i \<le> strlen filename" for i
    using that len slot(1) by (simp add: dirent_name_def max_entries_val layout_defs)
  have d_name: "strcmp_eq (root_directory d2) (dirent_name (unat slot)) filename"
  proof (rule strcmp_eq_bytes)
    show "\<forall>i < strlen filename. root_directory d2 (dirent_name (unat slot) + i) = filename ! i"
      using dir name_in set_dirent_name_bytes(1) [OF len] by simp
    show "root_directory d2 (dirent_name (unat slot) + strlen filename) = 0"
      using dir name_in [of "strlen filename"] set_dirent_name_bytes(2) [OF len] by simp
  qed
  have d_other: "\<forall>i < BLOCK_SIZE.
        \<not> (unat slot * sizeof_dirent \<le> i \<and> i < unat slot * sizeof_dirent + sizeof_dirent) \<longrightarrow>
        root_directory d2 i = root_directory d i"
    using dir by (simp add: set_dirent_other)
  have bits: "bitmap_test (inode_bitmap d2) (unat ino)"
    "\<forall>k < 8 * BLOCK_SIZE. k \<noteq> unat ino \<longrightarrow>
        bitmap_test (inode_bitmap d2) k = bitmap_test (inode_bitmap d) k"
    using bit ino_bits by simp_all
  show ?thesis
    using create install ino_free bits inode rdb slot(2) d_ino d_name d_other
    by (simp add: Let_def)
qed

lemma create_install_round_trip_fresh:
  "create_lookup Harmless (c_string ''foo.txt'') fresh_image = Inr (1, 2) \<and>
   jh_nbytes_used (open_journal fresh_image) = word_of_nat sizeof_journal_header \<and>
   bitmap_test (inode_bitmap fresh_image) 0 \<and>
   inode_count fresh_image \<le> INODE_BLOCKS * (BLOCK_SIZE div INODE_SIZE) \<and>
   DATA_START_IDX \<le> root_data_blk fresh_image \<and>
   cmd_create Harmless (c_string ''foo.txt'') 1000 fresh_image = (Inr (), staged_image) \<and>
   cmd_install staged_image = Some (Inr 1, installed_image) \<and>
   \<not> bitmap_test (inode_bitmap fresh_image) 1 \<and>
   bitmap_test (inode_bitmap installed_image) 1 \<and>
   inode_type (read_block installed_image INODE_START_IDX) 128 = INODE_FILE \<and>
   inode_links (read_block installed_image INODE_START_IDX) 128 = 1 \<and>
   inode_size (read_block installed_image INODE_START_IDX) 128 = 0 \<and>
   dirent_unused (root_directory fresh_image) 2 \<and>
   dirent_inode (root_directory installed_image) 2 = 1 \<and>
   strcmp_eq (root_directory installed_image) (dirent_name 2) (c_string ''foo.txt'')"
proof -
  have lookup: "create_lookup Harmless (c_string ''foo.txt'') fresh_image = Inr (1, 2)"
    by (simp add: eval_defs fresh_image_def)
  have empty: "jh_nbytes_used (open_journal fresh_image) = word_of_nat sizeof_journal_header"
    by (simp add: eval_defs fresh_image_def)
  have root_used: "bitmap_test (inode_bitmap fresh_image) 0"
    by (simp add: eval_defs fresh_image_def)
  have count: "inode_count fresh_image \<le> INODE_BLOCKS * (BLOCK_SIZE div INODE_SIZE)"
    by (simp add: eval_defs fresh_image_def)
  have data: "DATA_START_IDX \<le> root_data_blk fresh_image"
    by (simp add: eval_defs fresh_image_def)
  have where_1: "inode_block_idx 1 = 0" "inode_offset 1 * INODE_SIZE = 128"
    "unat (1 :: 32 word) = 1" "unat (2 :: 32 word) = 2"
    by (simp_all add: inode_block_idx_def inode_offset_def layout_defs)
  from create_install_round_trip [OF lookup empty root_used count data, where now = 1000]
  obtain d1 d2 where
    run: "cmd_create Harmless (c_string ''foo.txt'') 1000 fresh_image = (Inr (), d1)"
      "cmd_install d1 = Some (Inr 1, d2)"
    and bits: "\<not> bitmap_test (inode_bitmap fresh_image) 1" "bitmap_test (inode_bitmap d2) 1"
    and inode: "inode_type (read_block d2 INODE_START_IDX) 128 = INODE_FILE"
      "inode_links (read_block d2 INODE_START_IDX) 128 = 1"
      "inode_size (read_block d2 INODE_START_IDX) 128 = 0"
    and dir: "dirent_unused (root_directory fresh_image) 2"
      "dirent_inode (root_directory d2) 2 = 1"
      "strcmp_eq (root_directory d2) (dirent_name 2) (c_string ''foo.txt'')"
    by (auto simp add: where_1 Let_def)
  from run(1) have d1: "d1 = staged_image" by (simp add: staged_image_def)
  with run(2) have d2: "d2 = installed_image" by (simp add: installed_image_def)
  from lookup empty root_used count data run bits inode dir show ?thesis
    by (simp add: d1 d2)
qed


section \<open>Claims\<close>

text \<open>
  C1. The claim: a create merges the blocks on disk with the data records already staged
  in the journal, so that a second create before any install fails with DuplicateName or
  allocates another inode. In \<open>journal.c\<close> the checks read the blocks on disk only. On
  the fresh image, in runs that the read of the superblock lets go on, a create of
  \<open>foo.txt\<close> chooses inode 1 and directory slot 2 and succeeds; on the image it leaves,
  the checks of a second create of \<open>foo.txt\<close> choose inode 1 and slot 2 again, and the
  second create succeeds too.
\<close>

theorem create_twice_same_inode:
  "create_lookup Harmless (c_string ''foo.txt'') fresh_image = Inr (1, 2) \<and>
   fst (cmd_create Harmless (c_string ''foo.txt'') 1000 fresh_image) = Inr () \<and>
   create_lookup Harmless (c_string ''foo.txt'')
     (snd (cmd_create Harmless (c_string ''foo.txt'') 1000 fresh_image)) = Inr (1, 2) \<and>
   fst (cmd_create Harmless (c_string ''foo.txt'') 1001
     (snd (cmd_create Harmless (c_string ''foo.txt'') 1000 fresh_image))) = Inr ()"
  by (simp add: eval_defs fresh_image_def)

text \<open>
  C2. The claim: a replay stops at a record whose declared size runs past
  \<open>nbytes_used\<close>, and reads or applies no byte at or beyond \<open>nbytes_used\<close>. The loops
  of \<open>cmd_install\<close> compare only the end of the 4-byte record header with
  \<open>nbytes_used\<close>. With 108 bytes used and, at offset 8, a data record of declared size
  4104 for block 30, install returns normally with no transaction counted and block 30
  holds the payload: its byte 200, which is journal offset 216, went from 0 to \<open>0xAB\<close>.
\<close>

theorem install_applies_truncated_record:
  "jh_nbytes_used (read_journal truncated_record_image) = 108 \<and>
   rec_type (read_journal truncated_record_image) 8 = REC_DATA \<and>
   rec_size (read_journal truncated_record_image) 8 = 4104 \<and>
   rec_block_no (read_journal truncated_record_image) 8 = 30 \<and>
   read_journal truncated_record_image 216 = 0xAB \<and>
   read_block truncated_record_image 30 200 = 0 \<and>
   cmd_install truncated_record_image \<noteq> None \<and>
   fst (the (cmd_install truncated_record_image)) = Inr 0 \<and>
   read_block (snd (the (cmd_install truncated_record_image))) 30 200 = 0xAB"
  by (simp add: eval_defs fresh_image_def truncated_record_image_def)

text \<open>
  C3. The claim: the checks of a create come in the order magic, duplicate name, free
  inode, free directory slot. \<open>cmd_create\<close> looks for a free inode before it scans the
  directory: on the image with all 64 inodes in use and an entry \<open>foo.txt\<close> in the root
  directory, a create of \<open>foo.txt\<close> fails with NoFreeInode. And its scan of the directory
  stops at the first unused slot: on the image with \<open>foo.txt\<close> in slot 3 behind the unused
  slot 2, a create of \<open>foo.txt\<close> finds no duplicate and succeeds.
\<close>

theorem duplicate_name_counterexample:
  "strcmp_eq (root_directory exhausted_image) (dirent_name 2) (c_string ''foo.txt'') \<and>
   dirent_inode (root_directory exhausted_image) 2 = 5 \<and>
   bitmap_find_free (inode_bitmap exhausted_image)
     (sb_inode_count (read_block exhausted_image 0)) = - 1 \<and>
   fst (cmd_create Harmless (c_string ''foo.txt'') 1000 exhausted_image) = Inl NoFreeInode \<and>
   fst (cmd_create Harmless (c_string ''foo.txt'') 1000 exhausted_image) \<noteq> Inl DuplicateName \<and>
   dirent_unused (root_directory hole_image) 2 \<and>
   strcmp_eq (root_directory hole_image) (dirent_name 3) (c_string ''foo.txt'') \<and>
   dirent_inode (root_directory hole_image) 3 = 5 \<and>
   create_lookup Harmless (c_string ''foo.txt'') hole_image = Inr (1, 2) \<and>
   fst (cmd_create Harmless (c_string ''foo.txt'') 1000 hole_image) = Inr ()"
  by (simp add: eval_defs fresh_image_def exhausted_image_def hole_image_def)

text \<open>
  C3, as amended: in a run that the read of the superblock lets go on, and for a name of
  valid length, the checks come in the order magic (InvalidImage), free inode
  (NoFreeInode), name not present among the entries that stand before the first unused
  slot (DuplicateName), free directory slot (NoFreeDirectorySlot). Each failure is a
  different error and leaves the image unchanged. In particular an image with no free
  inode gives NoFreeInode whatever the directory holds. Nothing is said here of a name
  that stands behind an unused slot.
\<close>

theorem create_check_order:
  assumes "strlen filename < NAME_LEN"
  shows
    "(sb_magic (read_block d 0) \<noteq> FS_MAGIC \<longrightarrow>
        cmd_create Harmless filename now d = (Inl InvalidImage, d)) \<and>
     (sb_magic (read_block d 0) = FS_MAGIC \<and>
      (\<forall>k < inode_count d. bitmap_test (inode_bitmap d) k) \<longrightarrow>
        cmd_create Harmless filename now d = (Inl NoFreeInode, d)) \<and>
     (sb_magic (read_block d 0) = FS_MAGIC \<and>
      (\<exists>k < inode_count d. \<not> bitmap_test (inode_bitmap d) k) \<and>
      (\<exists>k < max_entries. strcmp_eq (root_directory d) (dirent_name k) filename \<and>
         (\<forall>j \<le> k. \<not> dirent_unused (root_directory d) j)) \<longrightarrow>
        cmd_create Harmless filename now d = (Inl DuplicateName, d)) \<and>
     (sb_magic (read_block d 0) = FS_MAGIC \<and>
      (\<exists>k < inode_count d. \<not> bitmap_test (inode_bitmap d) k) \<and>
      (\<forall>k < max_entries. \<not> dirent_unused (root_directory d) k \<and>
         \<not> strcmp_eq (root_directory d) (dirent_name k) filename) \<longrightarrow>
        cmd_create Harmless filename now d = (Inl NoFreeDirectorySlot, d))"
proof -
  have len: "\<not> NAME_LEN \<le> strlen filename" using assms by simp
  have none: "(bitmap_find_free (inode_bitmap d) (sb_inode_count (read_block d 0)) = - 1) =
      (\<forall>k < inode_count d. bitmap_test (inode_bitmap d) k)"
    by (simp add: bitmap_find_free_none inode_count_def)
  have dup: "scan_root_dir (root_directory d) filename 0 = Inl DuplicateName"
    if "k < max_entries" "strcmp_eq (root_directory d) (dirent_name k) filename"
       "\<forall>j \<le> k. \<not> dirent_unused (root_directory d) j" for k
    using that by (intro scan_root_dir_duplicate [of 0 k]) simp_all
  have full: "scan_root_dir (root_directory d) filename 0 = Inr (- 1)"
    if "\<forall>k < max_entries. \<not> dirent_unused (root_directory d) k \<and>
         \<not> strcmp_eq (root_directory d) (dirent_name k) filename"
    using that by (intro scan_root_dir_full) simp
  show ?thesis
    using len none dup full
    by (auto simp add: cmd_create_def create_lookup_def read_superblock_def Let_def
        inode_bitmap_def
        root_directory_def root_data_blk_def)
qed

theorem create_check_order_witness:
  "strlen (c_string ''foo.txt'') < NAME_LEN \<and>
   sb_magic (read_block exhausted_image 0) = FS_MAGIC \<and>
   inode_count exhausted_image = 64 \<and>
   bitmap_find_free (inode_bitmap exhausted_image)
     (sb_inode_count (read_block exhausted_image 0)) = - 1 \<and>
   strcmp_eq (root_directory exhausted_image) (dirent_name 2) (c_string ''foo.txt'') \<and>
   cmd_create Harmless (c_string ''foo.txt'') 1000 exhausted_image = (Inl NoFreeInode, exhausted_image)"
proof -
  have len: "strlen (c_string ''foo.txt'') < NAME_LEN"
    by (simp add: strlen_def c_string_def NAME_LEN_def)
  have magic: "sb_magic (read_block exhausted_image 0) = FS_MAGIC"
    by (simp add: eval_defs fresh_image_def exhausted_image_def)
  have n: "inode_count exhausted_image = 64"
    by (simp add: eval_defs fresh_image_def exhausted_image_def)
  have none: "bitmap_find_free (inode_bitmap exhausted_image)
          (sb_inode_count (read_block exhausted_image 0)) = - 1"
    by (simp add: eval_defs fresh_image_def exhausted_image_def)
  then have used: "\<forall>k < inode_count exhausted_image. bitmap_test (inode_bitmap exhausted_image) k"
    by (simp add: bitmap_find_free_none inode_count_def)
  have name: "strcmp_eq (root_directory exhausted_image) (dirent_name 2) (c_string ''foo.txt'')"
    by (simp add: eval_defs fresh_image_def exhausted_image_def)
  from create_check_order [OF len, where d = exhausted_image and now = 1000] magic used
  have "cmd_create Harmless (c_string ''foo.txt'') 1000 exhausted_image = (Inl NoFreeInode, exhausted_image)"
    by blast
  with len magic n none name show ?thesis by simp
qed

text \<open>
  C4. The claim: every successful create stages a snapshot of the root inode's block with
  the root's size grown by one directory entry and its mtime updated, whichever
  inode-table block the new inode falls in. When inodes 0..31 are in use, a create of
  \<open>foo.txt\<close> chooses inode 32, in block 20, and succeeds; its transaction is three data
  records, for blocks 17, 20 and 21, and a commit record, with none for block 19. After
  install the directory has the entry for inode 32 while the root inode's size is still
  64 and its mtime still 0.
\<close>

theorem create_in_second_block_skips_root_inode:
  "create_lookup Harmless (c_string ''foo.txt'') first_block_full_image = Inr (32, 2) \<and>
   fst (cmd_create Harmless (c_string ''foo.txt'') 1000 first_block_full_image) = Inr () \<and>
   jh_nbytes_used (read_journal staged_second_block_image) = 12324 \<and>
   rec_type (read_journal staged_second_block_image) 8 = REC_DATA \<and>
   rec_block_no (read_journal staged_second_block_image) 8 = 17 \<and>
   rec_type (read_journal staged_second_block_image) 4112 = REC_DATA \<and>
   rec_block_no (read_journal staged_second_block_image) 4112 = 20 \<and>
   rec_type (read_journal staged_second_block_image) 8216 = REC_DATA \<and>
   rec_block_no (read_journal staged_second_block_image) 8216 = 21 \<and>
   rec_type (read_journal staged_second_block_image) 12320 = REC_COMMIT \<and>
   inode_size (inode_block first_block_full_image) 0 = 64 \<and>
   cmd_install staged_second_block_image \<noteq> None \<and>
   fst (the (cmd_install staged_second_block_image)) = Inr 1 \<and>
   dirent_inode (root_directory (snd (the (cmd_install staged_second_block_image)))) 2 = 32 \<and>
   inode_size (inode_block (snd (the (cmd_install staged_second_block_image)))) 0 = 64 \<and>
   inode_mtime (inode_block (snd (the (cmd_install staged_second_block_image)))) 0 = 0"
  by (simp add: eval_defs fresh_image_def first_block_full_image_def
      staged_second_block_image_def)

text \<open>
  C5. The claim: a create whose transaction exceeds the remaining capacity of the journal
  fails with JournalFull. The capacity check adds \<open>nbytes_used\<close> and the size of the
  transaction as 32-bit numbers. With \<open>nbytes_used = 0xFFFFD000\<close> no capacity remains,
  the sum wraps to 28, the check passes, and the create does not fail with JournalFull: it
  goes on to append its records at offset \<open>0xFFFFD000\<close> of the 65536-byte buffer.
\<close>

theorem create_admits_wrapped_offset:
  "jh_nbytes_used (open_journal wrapped_header_image) = 0xFFFFD000 \<and>
   JOURNAL_SIZE < unat (jh_nbytes_used (open_journal wrapped_header_image)) + unat total_needed \<and>
   jh_nbytes_used (open_journal wrapped_header_image) + total_needed = 28 \<and>
   create_lookup Harmless (c_string ''foo.txt'') wrapped_header_image = Inr (1, 2) \<and>
   fst (cmd_create Harmless (c_string ''foo.txt'') 1000 wrapped_header_image) \<noteq> Inl JournalFull"
  by (simp add: eval_defs fresh_image_def wrapped_header_image_def)

text \<open>
  C6. After a successful create, every block outside the journal region (blocks 1..16) is
  byte for byte what it was before the call.
\<close>

theorem create_leaves_filesystem_blocks:
  assumes "fst (cmd_create w filename now d) = Inr ()"
    and "\<not> in_journal_region b" and "i < BLOCK_SIZE"
  shows "read_block (snd (cmd_create w filename now d)) b i = read_block d b i"
  using cmd_create_cases [of w filename now d] assms
  by (auto simp add: write_journal_outside)

theorem create_leaves_filesystem_blocks_witness:
  "fst (cmd_create Harmless (c_string ''foo.txt'') 1000 fresh_image) = Inr () \<and>
   \<not> in_journal_region INODE_BMAP_IDX \<and>
   read_block (snd (cmd_create Harmless (c_string ''foo.txt'') 1000 fresh_image)) INODE_BMAP_IDX 0 = 1 \<and>
   read_block fresh_image INODE_BMAP_IDX 0 = 1"
proof -
  have ok: "fst (cmd_create Harmless (c_string ''foo.txt'') 1000 fresh_image) = Inr ()"
    by (simp add: eval_defs fresh_image_def)
  have out: "\<not> in_journal_region INODE_BMAP_IDX"
    by (simp add: in_journal_region_def layout_defs)
  have old: "read_block fresh_image INODE_BMAP_IDX 0 = 1"
    by (simp add: eval_defs fresh_image_def)
  from create_leaves_filesystem_blocks [OF ok out, where i = 0] old ok out
  show ?thesis by (simp add: BLOCK_SIZE_def)
qed





text \<open>
  C9. The claim: a create fails, and changes nothing, for every file name that is empty or
  not shorter than the name field. \<open>cmd_create\<close> checks the upper bound only: an empty
  name on the fresh image is accepted and a transaction is staged (the journal goes from
  uninitialised to 12324 bytes used).
\<close>

theorem empty_name_accepted_counterexample:
  "strlen [] = 0 \<and>
   fst (cmd_create Harmless [] 1000 fresh_image) = Inr () \<and>
   jh_nbytes_used (read_journal fresh_image) = 0 \<and>
   jh_nbytes_used (read_journal (snd (cmd_create Harmless [] 1000 fresh_image))) = 12324"
  by (simp add: eval_defs fresh_image_def)

text \<open>
  C9, as amended: for every file name whose length is not shorter than the name field's
  28 bytes, a create fails with NameTooLong and the image is unchanged.
\<close>

theorem create_rejects_long_name:
  assumes "NAME_LEN \<le> strlen filename"
  shows "cmd_create w filename now d = (Inl NameTooLong, d)"
  using assms by (simp add: cmd_create_def create_lookup_def)

theorem create_rejects_long_name_witness:
  "NAME_LEN \<le> strlen (c_string ''abcdefghijklmnopqrstuvwxyz01'') \<and>
   cmd_create Harmless (c_string ''abcdefghijklmnopqrstuvwxyz01'') 1000 fresh_image
     = (Inl NameTooLong, fresh_image)"
proof -
  have long: "NAME_LEN \<le> strlen (c_string ''abcdefghijklmnopqrstuvwxyz01'')"
    by (simp add: strlen_def c_string_def NAME_LEN_def)
  from create_rejects_long_name [OF long] long show ?thesis by simp
qed




end
